theory Spec2Isabelle
  imports Main "HOL-Library.AList" "HOL-Library.Char_ord" "HOL-Library.List_Lexorder"
    "HOL-Library.Multiset"
begin

section \<open>Standard-library functions the clients call\<close>

text \<open>
  Go strings are byte sequences; a \<^typ>\<open>string\<close> here is the list of those bytes.
  The functions of this section are not part of the repository: they are the pieces of
  \<^verbatim>\<open>fmt\<close>, \<^verbatim>\<open>strings\<close>, \<^verbatim>\<open>encoding/base64\<close>, \<^verbatim>\<open>encoding/json\<close>,
  \<^verbatim>\<open>net/url\<close> and \<^verbatim>\<open>net/textproto\<close> that the two clients call, written out so that
  the clients can be evaluated.
\<close>

subsection \<open>fmt: decimal rendering of an int (the verb \<^verbatim>\<open>%d\<close>)\<close>

fun decimal :: "nat \<Rightarrow> string" where
  "decimal n = (if n < 10 then [''0123456789'' ! n] else decimal (n div 10) @ [''0123456789'' ! (n mod 10)])"

declare decimal.simps [simp del]

definition Itoa :: "int \<Rightarrow> string" where
  "Itoa i = (if i < 0 then CHR ''-'' # decimal (nat (- i)) else decimal (nat i))"

subsection \<open>strings: Split on a one-byte separator, TrimPrefix\<close>

text \<open>
  \<^verbatim>\<open>strings.Split(s, sep)\<close> for a separator of one byte: the pieces between the
  separators, always at least one piece.
\<close>

fun Split :: "string \<Rightarrow> char \<Rightarrow> string list" where
  "Split [] sep = [[]]"
| "Split (c # cs) sep =
     (if c = sep then [] # Split cs sep
      else (case Split cs sep of p # ps \<Rightarrow> (c # p) # ps | [] \<Rightarrow> [[c]]))"

definition TrimPrefix :: "string \<Rightarrow> string \<Rightarrow> string" where
  "TrimPrefix s p = (if take (length p) s = p then drop (length p) s else s)"

subsection \<open>encoding/base64: StdEncoding.EncodeToString\<close>

definition encodeStd :: string where
  "encodeStd = ''ABCDEFGHIJKLMNOPQRSTUVWXYZabcdefghijklmnopqrstuvwxyz0123456789+/''"

definition sextet :: "nat \<Rightarrow> char" where
  "sextet i = encodeStd ! i"

fun EncodeToString :: "string \<Rightarrow> string" where
  "EncodeToString (x # y # z # rest) =
     (let a = (of_char x :: nat); b = (of_char y :: nat); c = (of_char z :: nat) in
      [sextet (a div 4), sextet ((a mod 4) * 16 + b div 16),
       sextet ((b mod 16) * 4 + c div 64), sextet (c mod 64)] @ EncodeToString rest)"
| "EncodeToString [x, y] =
     (let a = (of_char x :: nat); b = (of_char y :: nat) in
      [sextet (a div 4), sextet ((a mod 4) * 16 + b div 16), sextet ((b mod 16) * 4), CHR ''=''])"
| "EncodeToString [x] =
     (let a = (of_char x :: nat) in
      [sextet (a div 4), sextet ((a mod 4) * 16), CHR ''='', CHR ''=''])"
| "EncodeToString [] = []"

subsection \<open>encoding/json: syntax\<close>

text \<open>
  A parsed JSON document. A number keeps its literal text; an object keeps its members
  in document order, duplicates included.
\<close>

datatype json =
    JNull
  | JBool bool
  | JNumber string
  | JString string
  | JArray "json list"
  | JObject "(string \<times> json) list"

text \<open>
  The scanner: what \<^verbatim>\<open>checkValid\<close> accepts, with string literals unquoted as
  \<^verbatim>\<open>unquote\<close> does (escapes resolved, surrogate pairs combined, ill-formed UTF-8
  replaced by U+FFFD).
\<close>

definition isSpace :: "char \<Rightarrow> bool" where
  "isSpace c = (c = CHR '' '' \<or> c = CHR 0x09 \<or> c = CHR 0x0D \<or> c = CHR 0x0A)"

definition isDigit :: "char \<Rightarrow> bool" where
  "isDigit c = (CHR ''0'' \<le> c \<and> c \<le> CHR ''9'')"

definition isHex :: "char \<Rightarrow> bool" where
  "isHex c = (isDigit c \<or> (CHR ''a'' \<le> c \<and> c \<le> CHR ''f'') \<or> (CHR ''A'' \<le> c \<and> c \<le> CHR ''F''))"

definition skipSpace :: "string \<Rightarrow> string" where
  "skipSpace s = dropWhile isSpace s"

fun scanString :: "string \<Rightarrow> string \<Rightarrow> (string \<times> string) option" where
  "scanString raw [] = None"
| "scanString raw (c # cs) =
     (if c = CHR 0x22 then Some (raw, cs)
      else if c = CHR 0x5C then
        (case cs of
           [] \<Rightarrow> None
         | e # cs' \<Rightarrow>
             if e \<in> set ''bfnrt/'' \<or> e = CHR 0x5C \<or> e = CHR 0x22 then scanString (raw @ [c, e]) cs'
             else if e = CHR ''u'' then
               (case cs' of
                  h1 # h2 # h3 # h4 # cs'' \<Rightarrow>
                    if isHex h1 \<and> isHex h2 \<and> isHex h3 \<and> isHex h4
                    then scanString (raw @ [c, e, h1, h2, h3, h4]) cs''
                    else None
                | _ \<Rightarrow> None)
             else None)
      else if (of_char c :: nat) < 0x20 then None
      else scanString (raw @ [c]) cs)"

definition hexVal :: "char \<Rightarrow> nat" where
  "hexVal c = (if isDigit c then of_char c - 48
               else if CHR ''a'' \<le> c \<and> c \<le> CHR ''f'' then of_char c - 87
               else of_char c - 55)"

definition getu4 :: "char \<Rightarrow> char \<Rightarrow> char \<Rightarrow> char \<Rightarrow> nat" where
  "getu4 a b c d = ((hexVal a * 16 + hexVal b) * 16 + hexVal c) * 16 + hexVal d"

definition EncodeRune :: "nat \<Rightarrow> string" where
  "EncodeRune r =
     (if r < 0x80 then [char_of r]
      else if r < 0x800 then [char_of (0xC0 + r div 64), char_of (0x80 + r mod 64)]
      else if r < 0x10000 then
        [char_of (0xE0 + r div 4096), char_of (0x80 + (r div 64) mod 64), char_of (0x80 + r mod 64)]
      else [char_of (0xF0 + r div 262144), char_of (0x80 + (r div 4096) mod 64),
            char_of (0x80 + (r div 64) mod 64), char_of (0x80 + r mod 64)])"

text \<open>Width of the well-formed UTF-8 sequence at the head of the input, 0 when ill-formed.\<close>

definition isCont :: "char \<Rightarrow> nat \<Rightarrow> nat \<Rightarrow> bool" where
  "isCont c lo hi = (lo \<le> of_char c \<and> (of_char c :: nat) \<le> hi)"

fun runeLen :: "string \<Rightarrow> nat" where
  "runeLen [] = 0"
| "runeLen (c # cs) =
     (let b = (of_char c :: nat) in
      if b < 0x80 then 1
      else if 0xC2 \<le> b \<and> b \<le> 0xDF then
        (case cs of c1 # _ \<Rightarrow> if isCont c1 0x80 0xBF then 2 else 0 | _ \<Rightarrow> 0)
      else if 0xE0 \<le> b \<and> b \<le> 0xEF then
        (case cs of c1 # c2 # _ \<Rightarrow>
           if isCont c1 (if b = 0xE0 then 0xA0 else 0x80) (if b = 0xED then 0x9F else 0xBF)
              \<and> isCont c2 0x80 0xBF then 3 else 0
         | _ \<Rightarrow> 0)
      else if 0xF0 \<le> b \<and> b \<le> 0xF4 then
        (case cs of c1 # c2 # c3 # _ \<Rightarrow>
           if isCont c1 (if b = 0xF0 then 0x90 else 0x80) (if b = 0xF4 then 0x8F else 0xBF)
              \<and> isCont c2 0x80 0xBF \<and> isCont c3 0x80 0xBF then 4 else 0
         | _ \<Rightarrow> 0)
      else 0)"

definition unescape :: "char \<Rightarrow> char" where
  "unescape e =
     (if e = CHR ''b'' then CHR 0x08 else if e = CHR ''f'' then CHR 0x0C
      else if e = CHR ''n'' then CHR 0x0A else if e = CHR ''r'' then CHR 0x0D
      else if e = CHR ''t'' then CHR 0x09 else e)"

text \<open>
  \<open>unquote k raw\<close>: \<open>raw\<close> is the text between the quotes, already accepted by
  \<open>scanString\<close>; \<open>k\<close> counts the continuation bytes of a well-formed rune that are
  still to be copied.
\<close>

fun unquote :: "nat \<Rightarrow> string \<Rightarrow> string" where
  "unquote k [] = []"
| "unquote (Suc k) (c # cs) = c # unquote k cs"
| "unquote 0 (c # cs) =
     (if c = CHR 0x5C then
        (case cs of
           [] \<Rightarrow> []
         | e # cs' \<Rightarrow>
             if e = CHR ''u'' then
               (case cs' of
                  h1 # h2 # h3 # h4 # r \<Rightarrow>
                    (let rr = getu4 h1 h2 h3 h4 in
                     if 0xD800 \<le> rr \<and> rr < 0xE000 then
                       (case r of
                          b # u # g1 # g2 # g3 # g4 # r' \<Rightarrow>
                            (let rr1 = getu4 g1 g2 g3 g4 in
                             if b = CHR 0x5C \<and> u = CHR ''u'' \<and> rr < 0xDC00 \<and> 0xDC00 \<le> rr1 \<and> rr1 < 0xE000
                             then EncodeRune ((rr - 0xD800) * 1024 + (rr1 - 0xDC00) + 0x10000) @ unquote 0 r'
                             else EncodeRune 0xFFFD @ unquote 0 r)
                        | _ \<Rightarrow> EncodeRune 0xFFFD @ unquote 0 r)
                     else EncodeRune rr @ unquote 0 r)
                | _ \<Rightarrow> [])
             else unescape e # unquote 0 cs')
      else if (of_char c :: nat) < 0x80 then c # unquote 0 cs
      else (case runeLen (c # cs) of
              0 \<Rightarrow> EncodeRune 0xFFFD @ unquote 0 cs
            | Suc n \<Rightarrow> c # unquote n cs))"

text \<open>Number literal: \<^verbatim>\<open>-? (0 | [1-9][0-9]*) (. [0-9]+)? ([eE] [+-]? [0-9]+)?\<close>\<close>

definition spanDigits :: "string \<Rightarrow> string \<times> string" where
  "spanDigits s = (takeWhile isDigit s, dropWhile isDigit s)"

definition scanExp :: "string \<Rightarrow> string \<Rightarrow> (string \<times> string) option" where
  "scanExp lit s =
     (case s of
        e # t \<Rightarrow>
          if e = CHR ''e'' \<or> e = CHR ''E'' then
            (let (sg, t') = (case t of g # u \<Rightarrow> if g = CHR ''+'' \<or> g = CHR ''-'' then ([g], u) else ([], t)
                                   | [] \<Rightarrow> ([], t));
                 (ds, r) = spanDigits t'
             in if ds = [] then None else Some (lit @ [e] @ sg @ ds, r))
          else Some (lit, s)
      | [] \<Rightarrow> Some (lit, s))"

definition scanFrac :: "string \<Rightarrow> string \<Rightarrow> (string \<times> string) option" where
  "scanFrac lit s =
     (case s of
        d # t \<Rightarrow>
          if d = CHR ''.'' then
            (let (ds, r) = spanDigits t
             in if ds = [] then None else scanExp (lit @ [d] @ ds) r)
          else scanExp lit s
      | [] \<Rightarrow> Some (lit, s))"

definition scanNumber :: "string \<Rightarrow> (string \<times> string) option" where
  "scanNumber s =
     (let (sg, t) = (case s of c # u \<Rightarrow> if c = CHR ''-'' then ([c], u) else ([], s) | [] \<Rightarrow> ([], s))
      in case t of
           [] \<Rightarrow> None
         | d # u \<Rightarrow>
             if d = CHR ''0'' then scanFrac (sg @ [d]) u
             else if isDigit d then (let (ds, r) = spanDigits u in scanFrac (sg @ [d] @ ds) r)
             else None)"

fun stripPrefix :: "string \<Rightarrow> string \<Rightarrow> string option" where
  "stripPrefix [] s = Some s"
| "stripPrefix (p # ps) [] = None"
| "stripPrefix (p # ps) (c # cs) = (if p = c then stripPrefix ps cs else None)"

text \<open>
  Recursive descent with fuel. Every call either consumes a byte or is followed by one
  that does, so \<open>2 * length data + 2\<close> is more fuel than any document needs
  (lemma \<open>parseJSON_fuel\<close>).
\<close>

fun parseValue :: "nat \<Rightarrow> string \<Rightarrow> (json \<times> string) option"
  and parseElements :: "nat \<Rightarrow> json list \<Rightarrow> string \<Rightarrow> (json list \<times> string) option"
  and parseMembers :: "nat \<Rightarrow> (string \<times> json) list \<Rightarrow> string \<Rightarrow> ((string \<times> json) list \<times> string) option"
where
  "parseValue 0 s = None"
| "parseValue (Suc n) s =
     (case skipSpace s of
        [] \<Rightarrow> None
      | c # cs \<Rightarrow>
          if c = CHR ''{'' then
            (case skipSpace cs of
               [] \<Rightarrow> None
             | d # r \<Rightarrow> if d = CHR ''}'' then Some (JObject [], r)
                        else map_option (\<lambda>(ms, t). (JObject ms, t)) (parseMembers n [] (d # r)))
          else if c = CHR ''['' then
            (case skipSpace cs of
               [] \<Rightarrow> None
             | d # r \<Rightarrow> if d = CHR '']'' then Some (JArray [], r)
                        else map_option (\<lambda>(vs, t). (JArray vs, t)) (parseElements n [] (d # r)))
          else if c = CHR 0x22 then
            (case scanString [] cs of
               None \<Rightarrow> None
             | Some (raw, r) \<Rightarrow> Some (JString (unquote 0 raw), r))
          else if c = CHR ''-'' \<or> isDigit c then
            (case scanNumber (c # cs) of
               None \<Rightarrow> None
             | Some (lit, r) \<Rightarrow> Some (JNumber lit, r))
          else if c = CHR ''t'' then map_option (Pair (JBool True)) (stripPrefix ''rue'' cs)
          else if c = CHR ''f'' then map_option (Pair (JBool False)) (stripPrefix ''alse'' cs)
          else if c = CHR ''n'' then map_option (Pair JNull) (stripPrefix ''ull'' cs)
          else None)"
| "parseElements 0 acc s = None"
| "parseElements (Suc n) acc s =
     (case parseValue n s of
        None \<Rightarrow> None
      | Some (v, r) \<Rightarrow>
          (case skipSpace r of
             [] \<Rightarrow> None
           | d # r' \<Rightarrow>
               if d = CHR '','' then parseElements n (acc @ [v]) r'
               else if d = CHR '']'' then Some (acc @ [v], r')
               else None))"
| "parseMembers 0 acc s = None"
| "parseMembers (Suc n) acc s =
     (case skipSpace s of
        [] \<Rightarrow> None
      | q # cs \<Rightarrow>
          if q \<noteq> CHR 0x22 then None
          else
            (case scanString [] cs of
               None \<Rightarrow> None
             | Some (raw, r) \<Rightarrow>
                 (case skipSpace r of
                    [] \<Rightarrow> None
                  | col # r1 \<Rightarrow>
                      if col \<noteq> CHR '':'' then None
                      else
                        (case parseValue n r1 of
                           None \<Rightarrow> None
                         | Some (v, r2) \<Rightarrow>
                             (case skipSpace r2 of
                                [] \<Rightarrow> None
                              | d # r3 \<Rightarrow>
                                  if d = CHR '','' then parseMembers n (acc @ [(unquote 0 raw, v)]) r3
                                  else if d = CHR ''}'' then Some (acc @ [(unquote 0 raw, v)], r3)
                                  else None)))))"

definition parseJSON :: "string \<Rightarrow> json option" where
  "parseJSON data =
     (case parseValue (2 * length data + 2) data of
        None \<Rightarrow> None
      | Some (v, r) \<Rightarrow> if skipSpace r = [] then Some v else None)"

subsection \<open>encoding/json: decoding into \<^verbatim>\<open>interface{}\<close>\<close>

text \<open>
  What \<^verbatim>\<open>json.Unmarshal\<close> stores in an \<^verbatim>\<open>interface{}\<close>: nil, bool, float64,
  string, \<^verbatim>\<open>[]interface{}\<close> or \<^verbatim>\<open>map[string]interface{}\<close>. A float64 is kept as the
  text that \<^verbatim>\<open>%v\<close> prints for it; floating point itself is outside the model, so the
  conversion of a number literal (\<^verbatim>\<open>strconv.ParseFloat\<close>, which fails when the literal
  is out of range, followed by the \<^verbatim>\<open>%v\<close> rendering) is a parameter \<open>ff\<close>.
  A Go map is an association list with distinct keys; the order of the list has no
  meaning, and a \<^verbatim>\<open>range\<close> loop visits the entries in an order chosen by the runtime.
\<close>

datatype any =
    Nil
  | Bool bool
  | Float64 string
  | String string
  | Slice "any list"
  | Map "(string \<times> any) list"

fun sequence :: "'a option list \<Rightarrow> 'a list option" where
  "sequence [] = Some []"
| "sequence (None # xs) = None"
| "sequence (Some x # xs) = map_option ((#) x) (sequence xs)"

definition mapOf :: "('k \<times> 'v) list \<Rightarrow> ('k \<times> 'v) list" where
  "mapOf ms = foldl (\<lambda>m kv. AList.update (fst kv) (snd kv) m) [] ms"

fun toAny :: "(string \<Rightarrow> string option) \<Rightarrow> json \<Rightarrow> any option" where
  "toAny ff JNull = Some Nil"
| "toAny ff (JBool b) = Some (Bool b)"
| "toAny ff (JNumber lit) = map_option Float64 (ff lit)"
| "toAny ff (JString s) = Some (String s)"
| "toAny ff (JArray vs) = map_option Slice (sequence (map (toAny ff) vs))"
| "toAny ff (JObject ms) =
     map_option (\<lambda>kvs. Map (mapOf kvs))
       (sequence (map (\<lambda>kv. map_option (Pair (fst kv)) (toAny ff (snd kv))) ms))"

subsection \<open>fmt: the verb \<^verbatim>\<open>%v\<close> on such a value\<close>

fun joinWith :: "string \<Rightarrow> string list \<Rightarrow> string" where
  "joinWith sep [] = []"
| "joinWith sep [x] = x"
| "joinWith sep (x # y # ys) = x @ sep @ joinWith sep (y # ys)"

fun Sprint :: "any \<Rightarrow> string" where
  "Sprint Nil = ''<nil>''"
| "Sprint (Bool b) = (if b then ''true'' else ''false'')"
| "Sprint (Float64 s) = s"
| "Sprint (String s) = s"
| "Sprint (Slice vs) = ''['' @ joinWith '' '' (map Sprint vs) @ '']''"
| "Sprint (Map ms) =
     ''map['' @ joinWith '' '' (map snd (sort_key fst (map (\<lambda>kv. (fst kv, fst kv @ '':'' @ Sprint (snd kv))) ms))) @ '']''"

subsection \<open>net/url: QueryEscape and Values\<close>

definition isAlnum :: "char \<Rightarrow> bool" where
  "isAlnum c = ((CHR ''a'' \<le> c \<and> c \<le> CHR ''z'') \<or> (CHR ''A'' \<le> c \<and> c \<le> CHR ''Z'') \<or> isDigit c)"

definition shouldEscape :: "char \<Rightarrow> bool" where
  "shouldEscape c = (\<not> (isAlnum c \<or> c \<in> set ''-_.~''))"

definition upperhex :: string where
  "upperhex = ''0123456789ABCDEF''"

definition escapeByte :: "char \<Rightarrow> string" where
  "escapeByte c =
     (if c = CHR '' '' then ''+''
      else if shouldEscape c then
        [CHR ''%'', upperhex ! ((of_char c :: nat) div 16), upperhex ! ((of_char c :: nat) mod 16)]
      else [c])"

definition QueryEscape :: "string \<Rightarrow> string" where
  "QueryEscape s = concat (map escapeByte s)"

type_synonym Values = "(string \<times> string list) list"

definition Get_values :: "Values \<Rightarrow> string \<Rightarrow> string list" where
  "Get_values v key = (case map_of v key of None \<Rightarrow> [] | Some vs \<Rightarrow> vs)"

definition Add :: "string \<Rightarrow> string \<Rightarrow> Values \<Rightarrow> Values" where
  "Add key val v = AList.update key (Get_values v key @ [val]) v"

text \<open>\<^verbatim>\<open>Values.Encode\<close>: keys sorted (byte-wise), \<^verbatim>\<open>key=value\<close> pairs joined by \<^verbatim>\<open>&\<close>.\<close>

definition Encode :: "Values \<Rightarrow> string" where
  "Encode v =
     joinWith ''&''
       (concat (map (\<lambda>k. map (\<lambda>x. QueryEscape k @ ''='' @ QueryEscape x) (Get_values v k))
                    (sort (map fst v))))"

subsection \<open>net/textproto: CanonicalMIMEHeaderKey; net/http: Header.Set\<close>

definition isLower :: "char \<Rightarrow> bool" where
  "isLower c = (CHR ''a'' \<le> c \<and> c \<le> CHR ''z'')"

definition isUpper :: "char \<Rightarrow> bool" where
  "isUpper c = (CHR ''A'' \<le> c \<and> c \<le> CHR ''Z'')"

definition toLower :: "char \<Rightarrow> char" where
  "toLower c = (if isUpper c then char_of ((of_char c :: nat) + 32) else c)"

definition toUpper :: "char \<Rightarrow> char" where
  "toUpper c = (if isLower c then char_of ((of_char c :: nat) - 32) else c)"

definition validHeaderFieldByte :: "char \<Rightarrow> bool" where
  "validHeaderFieldByte c = (isAlnum c \<or> c \<in> set ''!#$%&*+-.^_|~'' \<or> c = CHR 0x27 \<or> c = CHR 0x60)"

fun canonical :: "bool \<Rightarrow> string \<Rightarrow> string" where
  "canonical upper [] = []"
| "canonical upper (c # cs) =
     (let c' = (if upper then toUpper c else toLower c)
      in c' # canonical (c' = CHR ''-'') cs)"

definition CanonicalMIMEHeaderKey :: "string \<Rightarrow> string" where
  "CanonicalMIMEHeaderKey s = (if list_all validHeaderFieldByte s then canonical True s else s)"

type_synonym Header = "string \<rightharpoonup> string"

definition Header_Set :: "string \<Rightarrow> string \<Rightarrow> Header \<Rightarrow> Header" where
  "Header_Set key val h = h(CanonicalMIMEHeaderKey key \<mapsto> val)"

section \<open>The data model of the repository\<close>

text \<open>Field-level validation error and error envelope of a service response.\<close>

record ResponseError =
  ErrorCode :: string
  FieldName :: string
  Message :: string
  Meta :: "(string \<times> string) list"

record ResponseStatus =
  ErrorCode :: string
  Message :: string
  StackTrace :: string
  Errors :: "ResponseError list"
  Meta :: "(string \<times> string) list"

record WebServiceException =
  StatusCode :: int
  StatusDescription :: string
  ResponseStatus :: ResponseStatus

text \<open>
  A Go \<^verbatim>\<open>error\<close> value. \<open>LibraryError\<close> is an error produced by a standard-library
  call other than the JSON decoder (its text); \<open>Errorf p e\<close> is
  \<^verbatim>\<open>fmt.Errorf(p + ": %w", e)\<close>; \<open>StatusErrorf\<close> is the generic client's
  \<^verbatim>\<open>fmt.Errorf("request failed with status %d: %s", code, body)\<close>; \<open>ServiceError\<close> is
  a \<^verbatim>\<open>*WebServiceException\<close>.
\<close>

datatype go_error =
    LibraryError string
  | SyntaxError
  | UnmarshalTypeError
  | Errorf string go_error
  | StatusErrorf int string
  | ServiceError WebServiceException

text \<open>
  A value passed as \<^verbatim>\<open>interface{}\<close> for a request: what \<^verbatim>\<open>%T\<close> prints for its
  dynamic type and what \<^verbatim>\<open>json.Marshal\<close> returns for it. The nil interface is \<open>None\<close>.
\<close>

record govalue =
  typeString :: string
  jsonMarshal :: "go_error + string"

definition Sprintf_T :: "govalue option \<Rightarrow> string" where
  "Sprintf_T v = (case v of None \<Rightarrow> ''<nil>'' | Some x \<Rightarrow> typeString x)"

definition json_Marshal :: "govalue option \<Rightarrow> go_error + string" where
  "json_Marshal v = (case v of None \<Rightarrow> Inr ''null'' | Some x \<Rightarrow> jsonMarshal x)"

text \<open>
  A non-nil pointer to a caller-defined response value, passed as \<^verbatim>\<open>interface{}\<close>:
  the value it points to and the way the decoder stores a parsed document into that type
  (the decoder may have stored part of the document when it reports an error).
\<close>

record 'r pointer =
  pointee :: 'r
  decodeInto :: "json \<Rightarrow> 'r \<Rightarrow> go_error option \<times> 'r"

definition json_Unmarshal :: "string \<Rightarrow> 'r pointer \<Rightarrow> go_error option \<times> 'r pointer" where
  "json_Unmarshal data p =
     (case parseJSON data of
        None \<Rightarrow> (Some SyntaxError, p)
      | Some j \<Rightarrow> (case decodeInto p j (pointee p) of (e, v) \<Rightarrow> (e, p\<lparr>pointee := v\<rparr>)))"

record Request =
  Method :: string
  URL :: string
  Header :: Header
  Body :: "string option"

text \<open>A response as the client sees it; \<open>Body\<close> is the result of \<^verbatim>\<open>io.ReadAll(resp.Body)\<close>.\<close>

record Response =
  StatusCode :: int
  Status :: string
  Body :: "go_error + string"

text \<open>\<^verbatim>\<open>http.Client\<close>: the timeout in nanoseconds (\<^verbatim>\<open>time.Duration\<close>).\<close>

record http_Client =
  Timeout :: int

definition Second :: int where
  "Second = 1000000000"

text \<open>
  Everything outside the repository that a call depends on: the URL functions, the
  network (\<open>Do\<close>, which also stands for cancellation and timeouts), the order in which
  the runtime iterates over the two maps, and the float64 conversion.
\<close>

record environment =
  JoinPath :: "string \<Rightarrow> string \<Rightarrow> go_error + string"
  NewRequest :: "string \<Rightarrow> string \<Rightarrow> go_error option"
  Do :: "http_Client \<Rightarrow> Request \<Rightarrow> go_error + Response"
  rangeHeaders :: "(string \<times> string) list \<Rightarrow> (string \<times> string) list"
  rangeData :: "(string \<times> any) list \<Rightarrow> (string \<times> any) list"
  formatFloat :: "string \<Rightarrow> string option"

text \<open>
  What a call leaves behind: the returned error, the response value (for \<open>doRequest\<close> the
  caller's \<open>response\<close> argument after the call, for \<open>Send\<close> the returned value), the
  request handed to the HTTP client if the call got that far, and the receiver after the call.
\<close>

record ('c, 'r) outcome =
  err :: "go_error option"
  out :: "'r pointer option"
  sent :: "Request option"
  receiver :: 'c

section \<open>client.go: the generic client\<close>

text \<open>
  The methods take the receiver and return it in the outcome, as they could write to it
  through their pointer receiver. The header map of a client is the one its constructor
  made (a nil map, on which an assignment panics, is not modelled). The context argument
  of the methods is left out: it only decides, inside the HTTP client, whether and when
  \<open>Do\<close> fails. \<open>Get\<close>, \<open>Post\<close>, \<open>Put\<close>, \<open>Delete\<close> and \<open>Patch\<close> carry the name of their
  receiver type, since both clients have methods of these names.
\<close>

record Client =
  BaseURL :: string
  HTTPClient :: http_Client
  Headers :: "(string \<times> string) list"

definition NewClient :: "string \<Rightarrow> Client" where
  "NewClient baseURL = \<lparr>BaseURL = baseURL, HTTPClient = \<lparr>Timeout = 30 * Second\<rparr>, Headers = []\<rparr>"

definition SetHeader :: "Client \<Rightarrow> string \<Rightarrow> string \<Rightarrow> Client" where
  "SetHeader c key val = c\<lparr>Headers := AList.update key val (Headers c)\<rparr>"

definition applyHeaders :: "(string \<times> string) list \<Rightarrow> Header \<Rightarrow> Header" where
  "applyHeaders hs h = fold (\<lambda>kv. Header_Set (fst kv) (snd kv)) hs h"

definition doRequest ::
  "environment \<Rightarrow> Client \<Rightarrow> string \<Rightarrow> string \<Rightarrow> govalue option \<Rightarrow> 'r pointer option
     \<Rightarrow> (Client, 'r) outcome" where
  "doRequest env c method path request response =
     (let ret = \<lparr>err = None, out = response, sent = None, receiver = c\<rparr> in
      case JoinPath env (BaseURL c) path of
        Inl e \<Rightarrow> ret\<lparr>err := Some (Errorf ''failed to build URL'' e)\<rparr>
      | Inr fullURL \<Rightarrow>
     (case (case request of
              None \<Rightarrow> Inr None
            | Some r \<Rightarrow> (case jsonMarshal r of Inl e \<Rightarrow> Inl e | Inr jsonData \<Rightarrow> Inr (Some jsonData))) of
        Inl e \<Rightarrow> ret\<lparr>err := Some (Errorf ''failed to marshal request'' e)\<rparr>
      | Inr body \<Rightarrow>
     (case NewRequest env method fullURL of
        Some e \<Rightarrow> ret\<lparr>err := Some (Errorf ''failed to create request'' e)\<rparr>
      | None \<Rightarrow>
     (let h0 = (if request \<noteq> None then Header_Set ''Content-Type'' ''application/json'' Map.empty
                else Map.empty);
          h1 = Header_Set ''Accept'' ''application/json'' h0;
          h2 = applyHeaders (rangeHeaders env (Headers c)) h1;
          req = \<lparr>Method = method, URL = fullURL, Header = h2, Body = body\<rparr>;
          ret = ret\<lparr>sent := Some req\<rparr>
      in
      case Do env (HTTPClient c) req of
        Inl e \<Rightarrow> ret\<lparr>err := Some (Errorf ''failed to execute request'' e)\<rparr>
      | Inr resp \<Rightarrow>
     (case Response.Body resp of
        Inl e \<Rightarrow> ret\<lparr>err := Some (Errorf ''failed to read response body'' e)\<rparr>
      | Inr respBody \<Rightarrow>
          if Response.StatusCode resp < 200 \<or> Response.StatusCode resp \<ge> 300 then
            ret\<lparr>err := Some (StatusErrorf (Response.StatusCode resp) respBody)\<rparr>
          else
            (case response of
               None \<Rightarrow> ret
             | Some p \<Rightarrow>
                 if length respBody > 0 then
                   (case json_Unmarshal respBody p of
                      (Some e, p') \<Rightarrow>
                        ret\<lparr>err := Some (Errorf ''failed to unmarshal response'' e), out := Some p'\<rparr>
                    | (None, p') \<Rightarrow> ret\<lparr>out := Some p'\<rparr>)
                 else ret))))))"

definition Client_Get :: "environment \<Rightarrow> Client \<Rightarrow> string \<Rightarrow> 'r pointer option \<Rightarrow> (Client, 'r) outcome" where
  "Client_Get env c path response = doRequest env c ''GET'' path None response"

definition Client_Post ::
  "environment \<Rightarrow> Client \<Rightarrow> string \<Rightarrow> govalue option \<Rightarrow> 'r pointer option \<Rightarrow> (Client, 'r) outcome" where
  "Client_Post env c path request response = doRequest env c ''POST'' path request response"

definition Client_Put ::
  "environment \<Rightarrow> Client \<Rightarrow> string \<Rightarrow> govalue option \<Rightarrow> 'r pointer option \<Rightarrow> (Client, 'r) outcome" where
  "Client_Put env c path request response = doRequest env c ''PUT'' path request response"

definition Client_Delete :: "environment \<Rightarrow> Client \<Rightarrow> string \<Rightarrow> 'r pointer option \<Rightarrow> (Client, 'r) outcome" where
  "Client_Delete env c path response = doRequest env c ''DELETE'' path None response"

definition Client_Patch ::
  "environment \<Rightarrow> Client \<Rightarrow> string \<Rightarrow> govalue option \<Rightarrow> 'r pointer option \<Rightarrow> (Client, 'r) outcome" where
  "Client_Patch env c path request response = doRequest env c ''PATCH'' path request response"

section \<open>The convention-based client (JsonServiceClient)\<close>

text \<open>\<^verbatim>\<open>func (e *WebServiceException) Error() string\<close>\<close>

definition Error :: "WebServiceException \<Rightarrow> string" where
  "Error e =
     (if ResponseStatus.Message (ResponseStatus e) \<noteq> [] then
        Itoa (WebServiceException.StatusCode e) @ '' '' @ StatusDescription e @ '': ''
          @ ResponseStatus.Message (ResponseStatus e)
      else Itoa (WebServiceException.StatusCode e) @ '' '' @ StatusDescription e)"

record JsonServiceClient =
  BaseURL :: string
  httpClient :: http_Client
  Headers :: "(string \<times> string) list"

definition NewJsonServiceClient :: "string \<Rightarrow> JsonServiceClient" where
  "NewJsonServiceClient baseURL =
     \<lparr>BaseURL = baseURL, httpClient = \<lparr>Timeout = 30 * Second\<rparr>, Headers = []\<rparr>"

definition SetTimeout :: "JsonServiceClient \<Rightarrow> int \<Rightarrow> JsonServiceClient" where
  "SetTimeout c timeout = c\<lparr>httpClient := (httpClient c)\<lparr>Timeout := timeout\<rparr>\<rparr>"

definition SetBearerToken :: "JsonServiceClient \<Rightarrow> string \<Rightarrow> JsonServiceClient" where
  "SetBearerToken c token =
     c\<lparr>JsonServiceClient.Headers :=
         AList.update ''Authorization'' (''Bearer '' @ token) (JsonServiceClient.Headers c)\<rparr>"

definition basicAuth :: "string \<Rightarrow> string \<Rightarrow> string" where
  "basicAuth username password = (let auth = username @ '':'' @ password in EncodeToString auth)"

definition SetCredentials :: "JsonServiceClient \<Rightarrow> string \<Rightarrow> string \<Rightarrow> JsonServiceClient" where
  "SetCredentials c username password =
     c\<lparr>JsonServiceClient.Headers :=
         AList.update ''Authorization'' (''Basic '' @ basicAuth username password)
           (JsonServiceClient.Headers c)\<rparr>"

definition getRequestPath :: "JsonServiceClient \<Rightarrow> govalue option \<Rightarrow> string" where
  "getRequestPath c request =
     (let typeName = Sprintf_T request;
          parts = Split typeName (CHR ''.'');
          typeName = (if length parts > 1 then last parts else typeName);
          typeName = TrimPrefix typeName ''*''
      in ''/json/reply/'' @ typeName)"

text \<open>
  \<^verbatim>\<open>json.Unmarshal(jsonData, &data)\<close> for \<^verbatim>\<open>var data map[string]interface{}\<close>: a
  document that is \<^verbatim>\<open>null\<close> leaves the map nil (no entries), an object fills it, any
  other document is a type error.
\<close>

definition Unmarshal_map :: "(string \<Rightarrow> string option) \<Rightarrow> string \<Rightarrow> go_error + (string \<times> any) list" where
  "Unmarshal_map ff jsonData =
     (case parseJSON jsonData of
        None \<Rightarrow> Inl SyntaxError
      | Some JNull \<Rightarrow> Inr []
      | Some (JObject ms) \<Rightarrow>
          (case toAny ff (JObject ms) of
             Some (Map data) \<Rightarrow> Inr data
           | _ \<Rightarrow> Inl UnmarshalTypeError)
      | Some _ \<Rightarrow> Inl UnmarshalTypeError)"

definition toQueryString :: "environment \<Rightarrow> govalue option \<Rightarrow> go_error + string" where
  "toQueryString env v =
     (case json_Marshal v of
        Inl e \<Rightarrow> Inl e
      | Inr jsonData \<Rightarrow>
     (case Unmarshal_map (formatFloat env) jsonData of
        Inl e \<Rightarrow> Inl e
      | Inr data \<Rightarrow>
          (let params =
                 fold (\<lambda>kv params. if snd kv \<noteq> Nil then Add (fst kv) (Sprint (snd kv)) params else params)
                   (rangeData env data) []
           in Inr (Encode params))))"

text \<open>
  Decoding into the fields of the envelope. A field is found by its JSON name, compared
  without regard to case (\<^verbatim>\<open>foldName\<close>: ASCII letters, and the two non-ASCII runes that
  fold to ASCII letters, U+017F to s and U+212A to k). \<^verbatim>\<open>null\<close> leaves a string or a
  struct as it is and empties a slice or a map. Any mismatch of types makes
  \<^verbatim>\<open>json.Unmarshal\<close> return an error: that is \<open>None\<close> here, since \<open>parseError\<close> then
  discards whatever was decoded. An element of the slice beyond its current length
  starts from the zero value.
\<close>

fun foldName :: "string \<Rightarrow> string" where
  "foldName (a # b # c # r) =
     (if a = CHR 0xE2 \<and> b = CHR 0x84 \<and> c = CHR 0xAA then CHR ''k'' # foldName r
      else if a = CHR 0xC5 \<and> b = CHR 0xBF then CHR ''s'' # foldName (c # r)
      else toLower a # foldName (b # c # r))"
| "foldName [a, b] = (if a = CHR 0xC5 \<and> b = CHR 0xBF then ''s'' else [toLower a, toLower b])"
| "foldName [a] = [toLower a]"
| "foldName [] = []"

definition decodeString :: "json \<Rightarrow> string \<Rightarrow> string option" where
  "decodeString v cur = (case v of JString s \<Rightarrow> Some s | JNull \<Rightarrow> Some cur | _ \<Rightarrow> None)"

fun decodeFields :: "('m \<Rightarrow> 'a \<Rightarrow> 'a option) \<Rightarrow> 'm list \<Rightarrow> 'a \<Rightarrow> 'a option" where
  "decodeFields f [] a = Some a"
| "decodeFields f (m # ms) a = (case f m a of None \<Rightarrow> None | Some a' \<Rightarrow> decodeFields f ms a')"

definition decodeStringMap :: "json \<Rightarrow> (string \<times> string) list \<Rightarrow> (string \<times> string) list option" where
  "decodeStringMap v cur =
     (case v of
        JNull \<Rightarrow> Some []
      | JObject ms \<Rightarrow>
          decodeFields (\<lambda>kv m. map_option (\<lambda>s. AList.update (fst kv) s m) (decodeString (snd kv) [])) ms cur
      | _ \<Rightarrow> None)"

definition zeroResponseError :: ResponseError where
  "zeroResponseError =
     \<lparr>ResponseError.ErrorCode = [], FieldName = [], ResponseError.Message = [], ResponseError.Meta = []\<rparr>"

definition zeroResponseStatus :: ResponseStatus where
  "zeroResponseStatus = \<lparr>ErrorCode = [], Message = [], StackTrace = [], Errors = [], Meta = []\<rparr>"

definition setResponseErrorField :: "string \<times> json \<Rightarrow> ResponseError \<Rightarrow> ResponseError option" where
  "setResponseErrorField kv e =
     (let name = foldName (fst kv); v = snd kv in
      if name = ''errorcode'' then
        map_option (\<lambda>s. e\<lparr>ResponseError.ErrorCode := s\<rparr>) (decodeString v (ResponseError.ErrorCode e))
      else if name = ''fieldname'' then
        map_option (\<lambda>s. e\<lparr>FieldName := s\<rparr>) (decodeString v (FieldName e))
      else if name = ''message'' then
        map_option (\<lambda>s. e\<lparr>ResponseError.Message := s\<rparr>) (decodeString v (ResponseError.Message e))
      else if name = ''meta'' then
        map_option (\<lambda>m. e\<lparr>ResponseError.Meta := m\<rparr>) (decodeStringMap v (ResponseError.Meta e))
      else Some e)"

definition decodeResponseError :: "json \<Rightarrow> ResponseError \<Rightarrow> ResponseError option" where
  "decodeResponseError v cur =
     (case v of
        JNull \<Rightarrow> Some cur
      | JObject ms \<Rightarrow> decodeFields setResponseErrorField ms cur
      | _ \<Rightarrow> None)"

fun decodeElements :: "json list \<Rightarrow> ResponseError list \<Rightarrow> ResponseError list option" where
  "decodeElements [] cur = Some []"
| "decodeElements (v # vs) cur =
     (case decodeResponseError v (case cur of [] \<Rightarrow> zeroResponseError | e # _ \<Rightarrow> e) of
        None \<Rightarrow> None
      | Some e' \<Rightarrow> map_option ((#) e') (decodeElements vs (drop 1 cur)))"

definition decodeErrors :: "json \<Rightarrow> ResponseError list \<Rightarrow> ResponseError list option" where
  "decodeErrors v cur =
     (case v of JNull \<Rightarrow> Some [] | JArray vs \<Rightarrow> decodeElements vs cur | _ \<Rightarrow> None)"

definition setResponseStatusField :: "string \<times> json \<Rightarrow> ResponseStatus \<Rightarrow> ResponseStatus option" where
  "setResponseStatusField kv rs =
     (let name = foldName (fst kv); v = snd kv in
      if name = ''errorcode'' then
        map_option (\<lambda>s. rs\<lparr>ResponseStatus.ErrorCode := s\<rparr>) (decodeString v (ResponseStatus.ErrorCode rs))
      else if name = ''message'' then
        map_option (\<lambda>s. rs\<lparr>ResponseStatus.Message := s\<rparr>) (decodeString v (ResponseStatus.Message rs))
      else if name = ''stacktrace'' then
        map_option (\<lambda>s. rs\<lparr>StackTrace := s\<rparr>) (decodeString v (StackTrace rs))
      else if name = ''errors'' then
        map_option (\<lambda>es. rs\<lparr>Errors := es\<rparr>) (decodeErrors v (Errors rs))
      else if name = ''meta'' then
        map_option (\<lambda>m. rs\<lparr>ResponseStatus.Meta := m\<rparr>) (decodeStringMap v (ResponseStatus.Meta rs))
      else Some rs)"

definition decodeResponseStatus :: "json \<Rightarrow> ResponseStatus \<Rightarrow> ResponseStatus option" where
  "decodeResponseStatus v cur =
     (case v of
        JNull \<Rightarrow> Some cur
      | JObject ms \<Rightarrow> decodeFields setResponseStatusField ms cur
      | _ \<Rightarrow> None)"

text \<open>
  \<^verbatim>\<open>json.Unmarshal(body, &errorResponse)\<close> for the local struct of \<open>parseError\<close>, whose
  only field is \<^verbatim>\<open>ResponseStatus ResponseStatus `json:"responseStatus"`\<close>; the result is
  that field.
\<close>

definition setErrorResponseField :: "string \<times> json \<Rightarrow> ResponseStatus \<Rightarrow> ResponseStatus option" where
  "setErrorResponseField kv rs =
     (if foldName (fst kv) = ''responsestatus'' then decodeResponseStatus (snd kv) rs else Some rs)"

definition Unmarshal_errorResponse :: "string \<Rightarrow> go_error + ResponseStatus" where
  "Unmarshal_errorResponse body =
     (case parseJSON body of
        None \<Rightarrow> Inl SyntaxError
      | Some JNull \<Rightarrow> Inr zeroResponseStatus
      | Some (JObject ms) \<Rightarrow>
          (case decodeFields setErrorResponseField ms zeroResponseStatus of
             None \<Rightarrow> Inl UnmarshalTypeError
           | Some rs \<Rightarrow> Inr rs)
      | Some _ \<Rightarrow> Inl UnmarshalTypeError)"

definition parseError :: "JsonServiceClient \<Rightarrow> int \<Rightarrow> string \<Rightarrow> string \<Rightarrow> go_error" where
  "parseError c statusCode statusDescription body =
     (case Unmarshal_errorResponse body of
        Inl e \<Rightarrow>
          ServiceError \<lparr>WebServiceException.StatusCode = statusCode, StatusDescription = statusDescription,
                        ResponseStatus = zeroResponseStatus\<lparr>ResponseStatus.Message := body\<rparr>\<rparr>
      | Inr rs \<Rightarrow>
          ServiceError \<lparr>WebServiceException.StatusCode = statusCode, StatusDescription = statusDescription,
                        ResponseStatus = rs\<rparr>)"

definition Send ::
  "environment \<Rightarrow> JsonServiceClient \<Rightarrow> string \<Rightarrow> govalue option \<Rightarrow> 'r pointer option
     \<Rightarrow> (JsonServiceClient, 'r) outcome" where
  "Send env c method request responseType =
     (let ret = \<lparr>err = None, out = None, sent = None, receiver = c\<rparr>;
          requestPath = getRequestPath c request;
          requestURL = JsonServiceClient.BaseURL c @ requestPath
      in
      case (if method = ''GET'' \<or> method = ''DELETE'' then
              (case toQueryString env request of
                 Inl e \<Rightarrow> Inl e
               | Inr params \<Rightarrow>
                   Inr (if params \<noteq> [] then requestURL @ ''?'' @ params else requestURL, None))
            else
              (case json_Marshal request of
                 Inl e \<Rightarrow> Inl (Errorf ''failed to marshal request'' e)
               | Inr jsonData \<Rightarrow> Inr (requestURL, Some jsonData))) of
        Inl e \<Rightarrow> ret\<lparr>err := Some e\<rparr>
      | Inr (requestURL, body) \<Rightarrow>
     (case NewRequest env method requestURL of
        Some e \<Rightarrow> ret\<lparr>err := Some (Errorf ''failed to create request'' e)\<rparr>
      | None \<Rightarrow>
     (let h0 = Header_Set ''Content-Type'' ''application/json'' Map.empty;
          h1 = Header_Set ''Accept'' ''application/json'' h0;
          h2 = applyHeaders (rangeHeaders env (JsonServiceClient.Headers c)) h1;
          req = \<lparr>Method = method, URL = requestURL, Header = h2, Body = body\<rparr>;
          ret = ret\<lparr>sent := Some req\<rparr>
      in
      case Do env (httpClient c) req of
        Inl e \<Rightarrow> ret\<lparr>err := Some (Errorf ''failed to send request'' e)\<rparr>
      | Inr resp \<Rightarrow>
     (case Response.Body resp of
        Inl e \<Rightarrow> ret\<lparr>err := Some (Errorf ''failed to read response'' e)\<rparr>
      | Inr respBody \<Rightarrow>
          if Response.StatusCode resp \<ge> 400 then
            ret\<lparr>err := Some (parseError c (Response.StatusCode resp) (Status resp) respBody)\<rparr>
          else
            (case responseType of
               Some p \<Rightarrow>
                 (case json_Unmarshal respBody p of
                    (Some e, p') \<Rightarrow> ret\<lparr>err := Some (Errorf ''failed to unmarshal response'' e)\<rparr>
                  | (None, p') \<Rightarrow> ret\<lparr>out := Some p'\<rparr>)
             | None \<Rightarrow> ret)))))"

text \<open>
  A request that implements \<^verbatim>\<open>IReturn\<close>: the value and what its method
  \<^verbatim>\<open>ResponseType()\<close> returns.
\<close>

record 'r IReturn =
  dto :: govalue
  ResponseType :: "'r pointer option"

definition JsonServiceClient_Get ::
  "environment \<Rightarrow> JsonServiceClient \<Rightarrow> 'r IReturn \<Rightarrow> (JsonServiceClient, 'r) outcome" where
  "JsonServiceClient_Get env c r = Send env c ''GET'' (Some (dto r)) (ResponseType r)"

definition JsonServiceClient_Post ::
  "environment \<Rightarrow> JsonServiceClient \<Rightarrow> 'r IReturn \<Rightarrow> (JsonServiceClient, 'r) outcome" where
  "JsonServiceClient_Post env c r = Send env c ''POST'' (Some (dto r)) (ResponseType r)"

definition JsonServiceClient_Put ::
  "environment \<Rightarrow> JsonServiceClient \<Rightarrow> 'r IReturn \<Rightarrow> (JsonServiceClient, 'r) outcome" where
  "JsonServiceClient_Put env c r = Send env c ''PUT'' (Some (dto r)) (ResponseType r)"

definition JsonServiceClient_Delete ::
  "environment \<Rightarrow> JsonServiceClient \<Rightarrow> 'r IReturn \<Rightarrow> (JsonServiceClient, 'r) outcome" where
  "JsonServiceClient_Delete env c r = Send env c ''DELETE'' (Some (dto r)) (ResponseType r)"

definition JsonServiceClient_Patch ::
  "environment \<Rightarrow> JsonServiceClient \<Rightarrow> 'r IReturn \<Rightarrow> (JsonServiceClient, 'r) outcome" where
  "JsonServiceClient_Patch env c r = Send env c ''PATCH'' (Some (dto r)) (ResponseType r)"

section \<open>The DTOs and the servers of the repository's tests\<close>

text \<open>
  \<^verbatim>\<open>HelloResponse\<close>, with its field \<^verbatim>\<open>Result string `json:"result"`\<close>, and the way the
  decoder fills it: a string is stored, \<^verbatim>\<open>null\<close> changes nothing, any other value is a
  type error, after which decoding goes on and the first error is the one reported.
\<close>

record HelloResponse =
  Result :: string

definition setHelloResponseField ::
  "string \<times> json \<Rightarrow> go_error option \<times> HelloResponse \<Rightarrow> go_error option \<times> HelloResponse" where
  "setHelloResponseField kv st =
     (if foldName (fst kv) = ''result'' then
        (case snd kv of
           JString s \<Rightarrow> (fst st, (snd st)\<lparr>Result := s\<rparr>)
         | JNull \<Rightarrow> st
         | _ \<Rightarrow> (if fst st = None then Some UnmarshalTypeError else fst st, snd st))
      else st)"

definition decodeHelloResponse :: "json \<Rightarrow> HelloResponse \<Rightarrow> go_error option \<times> HelloResponse" where
  "decodeHelloResponse j r =
     (case j of
        JNull \<Rightarrow> (None, r)
      | JObject ms \<Rightarrow> fold setHelloResponseField ms (None, r)
      | _ \<Rightarrow> (Some UnmarshalTypeError, r))"

text \<open>\<^verbatim>\<open>&HelloResponse{}\<close>, what \<^verbatim>\<open>ResponseType()\<close> of a \<^verbatim>\<open>HelloRequest\<close> returns.\<close>

definition newHelloResponse :: "HelloResponse pointer" where
  "newHelloResponse = \<lparr>pointee = \<lparr>Result = []\<rparr>, decodeInto = decodeHelloResponse\<rparr>"

definition quote :: "string \<Rightarrow> string" where
  "quote s = CHR 0x22 # s @ [CHR 0x22]"

text \<open>\<^verbatim>\<open>&HelloRequest{Name: "World"}\<close> of package servicestack.\<close>

definition helloWorldJSON :: string where
  "helloWorldJSON = ''{'' @ quote ''name'' @ '':'' @ quote ''World'' @ ''}''"

definition helloWorld :: govalue where
  "helloWorld = \<lparr>typeString = ''*servicestack.HelloRequest'', jsonMarshal = Inr helloWorldJSON\<rparr>"

text \<open>The body \<^verbatim>\<open>{"result":"Hello, World!"}\<close> that the test servers send.\<close>

definition helloResultJSON :: string where
  "helloResultJSON = ''{'' @ quote ''result'' @ '':'' @ quote ''Hello, World!'' @ ''}''"

text \<open>
  A request with a second, optional field that is nil: it marshals to
  \<^verbatim>\<open>{"name":"World","tag":null}\<close>.
\<close>

definition helloNilJSON :: string where
  "helloNilJSON = ''{'' @ quote ''name'' @ '':'' @ quote ''World'' @ '','' @ quote ''tag'' @ '':null}''"

definition helloNil :: govalue where
  "helloNil = \<lparr>typeString = ''*main.TaggedRequest'', jsonMarshal = Inr helloNilJSON\<rparr>"

text \<open>
  \<^verbatim>\<open>TestRequest{Name: "test", Value: 42}\<close> of the generic client's tests, which
  marshals to \<^verbatim>\<open>{"name":"test","value":42}\<close>.
\<close>

definition testRequestJSON :: string where
  "testRequestJSON = ''{'' @ quote ''name'' @ '':'' @ quote ''test'' @ '','' @ quote ''value'' @ '':42}''"

definition testRequest :: govalue where
  "testRequest = \<lparr>typeString = ''servicestack.TestRequest'', jsonMarshal = Inr testRequestJSON\<rparr>"

text \<open>
  Error bodies: the validation error of \<^verbatim>\<open>TestErrorHandling\<close>, and a JSON body
  without a \<^verbatim>\<open>responseStatus\<close> member, \<^verbatim>\<open>{"error":"Not Found"}\<close>.
\<close>

definition validationErrorJSON :: string where
  "validationErrorJSON =
     ''{'' @ quote ''responseStatus'' @ '':{'' @ quote ''errorCode'' @ '':'' @ quote ''ValidationError''
       @ '','' @ quote ''message'' @ '':'' @ quote ''Name is required''
       @ '','' @ quote ''errors'' @ '':[{'' @ quote ''errorCode'' @ '':'' @ quote ''NotEmpty''
       @ '','' @ quote ''fieldName'' @ '':'' @ quote ''Name''
       @ '','' @ quote ''message'' @ '':'' @ quote ''Name cannot be empty'' @ ''}]}}''"

definition notFoundJSON :: string where
  "notFoundJSON = ''{'' @ quote ''error'' @ '':'' @ quote ''Not Found'' @ ''}''"

definition helloRequest :: "HelloResponse IReturn" where
  "helloRequest = \<lparr>dto = helloWorld, ResponseType = Some newHelloResponse\<rparr>"

text \<open>
  A test server that answers every request with the given status code, status line and
  body. The base URLs of the tests have no trailing slash and the paths start with one,
  where \<^verbatim>\<open>url.JoinPath\<close> concatenates; every request can be built; the maps are
  visited in the order of their lists; number literals are integers that \<^verbatim>\<open>%v\<close>
  prints as they are written.
\<close>

definition testServer :: "int \<Rightarrow> string \<Rightarrow> string \<Rightarrow> environment" where
  "testServer code status body =
     \<lparr>JoinPath = (\<lambda>base path. Inr (base @ path)),
      NewRequest = (\<lambda>method url. None),
      Do = (\<lambda>hc req. Inr \<lparr>StatusCode = code, Status = status, Body = Inr body\<rparr>),
      rangeHeaders = id,
      rangeData = id,
      formatFloat = Some\<rparr>"

section \<open>Notions used to state the properties\<close>

text \<open>A call of one of the two credential helpers, and the header value it stores.\<close>

datatype auth_call = BearerToken string | Credentials string string

fun applyAuth :: "JsonServiceClient \<Rightarrow> auth_call \<Rightarrow> JsonServiceClient" where
  "applyAuth c (BearerToken token) = SetBearerToken c token"
| "applyAuth c (Credentials username password) = SetCredentials c username password"

fun authValue :: "auth_call \<Rightarrow> string" where
  "authValue (BearerToken token) = ''Bearer '' @ token"
| "authValue (Credentials username password) = ''Basic '' @ basicAuth username password"

text \<open>The number that a string of decimal digits denotes.\<close>

definition digitsValue :: "string \<Rightarrow> nat" where
  "digitsValue s = foldl (\<lambda>a c. 10 * a + ((of_char c :: nat) - 48)) 0 s"

text \<open>
  The stages of the two request functions, named so that a property can speak of one
  stage: the body and the request that \<open>doRequest\<close> and \<open>Send\<close> build, the exchange with
  the server, and the treatment of the response. The lemmas \<open>doRequest_staged\<close> and
  \<open>Send_staged\<close> show that the functions are the composition of their stages.
\<close>

definition prepareBody :: "govalue option \<Rightarrow> go_error + string option" where
  "prepareBody request =
     (case request of
        None \<Rightarrow> Inr None
      | Some r \<Rightarrow> (case jsonMarshal r of Inl e \<Rightarrow> Inl e | Inr jsonData \<Rightarrow> Inr (Some jsonData)))"

definition doRequest_req ::
  "environment \<Rightarrow> Client \<Rightarrow> string \<Rightarrow> string \<Rightarrow> govalue option \<Rightarrow> string option \<Rightarrow> Request" where
  "doRequest_req env c method fullURL request body =
     \<lparr>Method = method, URL = fullURL,
      Header = applyHeaders (rangeHeaders env (Client.Headers c))
                 (Header_Set ''Accept'' ''application/json''
                    (if request \<noteq> None then Header_Set ''Content-Type'' ''application/json'' Map.empty
                     else Map.empty)),
      Body = body\<rparr>"

definition doRequest_response ::
  "Client \<Rightarrow> 'r pointer option \<Rightarrow> Request \<Rightarrow> Response \<Rightarrow> (Client, 'r) outcome" where
  "doRequest_response c response req resp =
     (case Response.Body resp of
        Inl e \<Rightarrow> \<lparr>err = Some (Errorf ''failed to read response body'' e), out = response,
                  sent = Some req, receiver = c\<rparr>
      | Inr respBody \<Rightarrow>
          if Response.StatusCode resp < 200 \<or> Response.StatusCode resp \<ge> 300 then
            \<lparr>err = Some (StatusErrorf (Response.StatusCode resp) respBody), out = response,
             sent = Some req, receiver = c\<rparr>
          else
            (case response of
               None \<Rightarrow> \<lparr>err = None, out = response, sent = Some req, receiver = c\<rparr>
             | Some p \<Rightarrow>
                 if length respBody > 0 then
                   (case json_Unmarshal respBody p of
                      (Some e, p') \<Rightarrow>
                        \<lparr>err = Some (Errorf ''failed to unmarshal response'' e), out = Some p',
                         sent = Some req, receiver = c\<rparr>
                    | (None, p') \<Rightarrow> \<lparr>err = None, out = Some p', sent = Some req, receiver = c\<rparr>)
                 else \<lparr>err = None, out = response, sent = Some req, receiver = c\<rparr>))"

definition doRequest_exchange ::
  "environment \<Rightarrow> Client \<Rightarrow> 'r pointer option \<Rightarrow> Request \<Rightarrow> (Client, 'r) outcome" where
  "doRequest_exchange env c response req =
     (case Do env (HTTPClient c) req of
        Inl e \<Rightarrow> \<lparr>err = Some (Errorf ''failed to execute request'' e), out = response,
                  sent = Some req, receiver = c\<rparr>
      | Inr resp \<Rightarrow> doRequest_response c response req resp)"

definition Send_encode ::
  "environment \<Rightarrow> JsonServiceClient \<Rightarrow> string \<Rightarrow> govalue option \<Rightarrow> go_error + string \<times> string option" where
  "Send_encode env c method request =
     (let requestURL = JsonServiceClient.BaseURL c @ getRequestPath c request in
      if method = ''GET'' \<or> method = ''DELETE'' then
        (case toQueryString env request of
           Inl e \<Rightarrow> Inl e
         | Inr params \<Rightarrow> Inr (if params \<noteq> [] then requestURL @ ''?'' @ params else requestURL, None))
      else
        (case json_Marshal request of
           Inl e \<Rightarrow> Inl (Errorf ''failed to marshal request'' e)
         | Inr jsonData \<Rightarrow> Inr (requestURL, Some jsonData)))"

definition Send_req ::
  "environment \<Rightarrow> JsonServiceClient \<Rightarrow> string \<Rightarrow> string \<Rightarrow> string option \<Rightarrow> Request" where
  "Send_req env c method requestURL body =
     \<lparr>Method = method, URL = requestURL,
      Header = applyHeaders (rangeHeaders env (JsonServiceClient.Headers c))
                 (Header_Set ''Accept'' ''application/json''
                    (Header_Set ''Content-Type'' ''application/json'' Map.empty)),
      Body = body\<rparr>"

definition Send_response ::
  "JsonServiceClient \<Rightarrow> 'r pointer option \<Rightarrow> Request \<Rightarrow> Response \<Rightarrow> (JsonServiceClient, 'r) outcome" where
  "Send_response c responseType req resp =
     (case Response.Body resp of
        Inl e \<Rightarrow> \<lparr>err = Some (Errorf ''failed to read response'' e), out = None,
                  sent = Some req, receiver = c\<rparr>
      | Inr respBody \<Rightarrow>
          if Response.StatusCode resp \<ge> 400 then
            \<lparr>err = Some (parseError c (Response.StatusCode resp) (Status resp) respBody), out = None,
             sent = Some req, receiver = c\<rparr>
          else
            (case responseType of
               Some p \<Rightarrow>
                 (case json_Unmarshal respBody p of
                    (Some e, p') \<Rightarrow>
                      \<lparr>err = Some (Errorf ''failed to unmarshal response'' e), out = None,
                       sent = Some req, receiver = c\<rparr>
                  | (None, p') \<Rightarrow> \<lparr>err = None, out = Some p', sent = Some req, receiver = c\<rparr>)
             | None \<Rightarrow> \<lparr>err = None, out = None, sent = Some req, receiver = c\<rparr>))"

definition Send_exchange ::
  "environment \<Rightarrow> JsonServiceClient \<Rightarrow> 'r pointer option \<Rightarrow> Request \<Rightarrow> (JsonServiceClient, 'r) outcome" where
  "Send_exchange env c responseType req =
     (case Do env (httpClient c) req of
        Inl e \<Rightarrow> \<lparr>err = Some (Errorf ''failed to send request'' e), out = None,
                  sent = Some req, receiver = c\<rparr>
      | Inr resp \<Rightarrow> Send_response c responseType req resp)"

text \<open>
  The runtime may visit the entries of a map in any order, but it visits each entry
  once: a range order is a function that permutes every list.
\<close>

definition rangeOrder :: "('a list \<Rightarrow> 'a list) \<Rightarrow> bool" where
  "rangeOrder f = (\<forall>xs. mset (f xs) = mset xs)"

text \<open>
  A Go identifier, the name a type is declared with: letters, digits and underscores, not
  starting with a digit. A byte of a non-ASCII letter counts as a letter.
\<close>

definition isIdentifier :: "string \<Rightarrow> bool" where
  "isIdentifier s =
     (s \<noteq> [] \<and> \<not> isDigit (hd s)
      \<and> list_all (\<lambda>c. isAlnum c \<or> c = CHR ''_'' \<or> (of_char c :: nat) \<ge> 0x80) s)"

text \<open>
  The query string of a decoded map, as a function of the map alone: the entries whose
  value is not nil, in ascending order of their keys, each as escaped \<^verbatim>\<open>key=value\<close>,
  joined by \<^verbatim>\<open>&\<close>.
\<close>

definition queryPair :: "string \<times> string \<Rightarrow> string" where
  "queryPair kx = QueryEscape (fst kx) @ ''='' @ QueryEscape (snd kx)"

definition queryParams :: "(string \<times> any) list \<Rightarrow> (string \<times> string) list" where
  "queryParams data =
     map (\<lambda>kv. (fst kv, Sprint (snd kv))) (sort_key fst (filter (\<lambda>kv. snd kv \<noteq> Nil) data))"

definition canonicalQuery :: "(string \<times> any) list \<Rightarrow> string" where
  "canonicalQuery data = joinWith ''&'' (map queryPair (queryParams data))"

text \<open>The body of the loop of \<open>toQueryString\<close>.\<close>

definition addParam :: "string \<times> any \<Rightarrow> Values \<Rightarrow> Values" where
  "addParam kv params = (if snd kv \<noteq> Nil then Add (fst kv) (Sprint (snd kv)) params else params)"

text \<open>
  Fuel \<open>k\<close> is enough for a parse of \<open>s\<close> that leaves \<open>rest\<close>: two units for every
  byte consumed.
\<close>

definition enough :: "nat \<Rightarrow> string \<Rightarrow> string \<Rightarrow> bool" where
  "enough k s rest = (2 * (length s - length rest) \<le> k)"

section \<open>The parser has enough fuel\<close>

lemma skipSpace_length: "length (skipSpace s) \<le> length s"
  by (simp add: skipSpace_def length_dropWhile_le)

lemma scanString_length: "scanString raw s = Some (x, r) \<Longrightarrow> length r < length s"
proof (induction raw s rule: scanString.induct)
  case (1 raw)
  then show ?case by simp
next
  case (2 raw c cs)
  then show ?case
    by (auto split: if_splits list.splits) fastforce+
qed

lemma spanDigits_length: "spanDigits s = (ds, r) \<Longrightarrow> length r \<le> length s"
  by (auto simp: spanDigits_def length_dropWhile_le)

lemma scanExp_length: "scanExp lit s = Some (l, r) \<Longrightarrow> length r \<le> length s"
  by (auto simp: scanExp_def spanDigits_def Let_def split: list.splits if_splits
           intro: le_trans [OF length_dropWhile_le])

lemma scanFrac_length: "scanFrac lit s = Some (l, r) \<Longrightarrow> length r \<le> length s"
  by (auto simp: scanFrac_def spanDigits_def Let_def split: list.splits if_splits
           dest!: scanExp_length intro: le_trans [OF _ length_dropWhile_le] le_SucI)

lemma scanNumber_length: "scanNumber s = Some (l, r) \<Longrightarrow> length r < length s"
  by (auto simp: scanNumber_def spanDigits_def Let_def split: list.splits if_splits
           dest!: scanFrac_length intro: le_trans [OF _ length_dropWhile_le] le_SucI le_imp_less_Suc)

lemma stripPrefix_length: "stripPrefix p s = Some r \<Longrightarrow> length r \<le> length s"
  by (induction p s rule: stripPrefix.induct) (auto split: if_splits)

lemma parse_adequate:
  "(\<forall>s v rest. parseValue n s = Some (v, rest) \<longrightarrow>
      length rest < length s \<and> (\<forall>k. enough k s rest \<longrightarrow> parseValue k s = Some (v, rest)))
   \<and> (\<forall>acc s vs rest. parseElements n acc s = Some (vs, rest) \<longrightarrow>
      length rest < length s \<and> (\<forall>k. enough k s rest \<longrightarrow> parseElements k acc s = Some (vs, rest)))
   \<and> (\<forall>acc s ms rest. parseMembers n acc s = Some (ms, rest) \<longrightarrow>
      length rest < length s \<and> (\<forall>k. enough k s rest \<longrightarrow> parseMembers k acc s = Some (ms, rest)))"
proof (induction n)
  case 0
  show ?case by simp
next
  case (Suc n)
  then have V: "\<And>s v rest. parseValue n s = Some (v, rest) \<Longrightarrow>
      length rest < length s \<and> (\<forall>k. enough k s rest \<longrightarrow> parseValue k s = Some (v, rest))"
    and E: "\<And>acc s vs rest. parseElements n acc s = Some (vs, rest) \<Longrightarrow>
      length rest < length s \<and> (\<forall>k. enough k s rest \<longrightarrow> parseElements k acc s = Some (vs, rest))"
    and M: "\<And>acc s ms rest. parseMembers n acc s = Some (ms, rest) \<Longrightarrow>
      length rest < length s \<and> (\<forall>k. enough k s rest \<longrightarrow> parseMembers k acc s = Some (ms, rest))"
    by blast+
  have pv: "length rest < length s \<and> (\<forall>k. enough k s rest \<longrightarrow> parseValue k s = Some (v, rest))"
    if a: "parseValue (Suc n) s = Some (v, rest)" for s v rest
  proof -
    from a obtain c cs where t: "skipSpace s = c # cs" by (auto split: list.splits)
    have ls: "length cs < length s" using skipSpace_length [of s] t by simp
    consider (obj) "c = CHR ''{''" | (arr) "c \<noteq> CHR ''{''" "c = CHR ''[''"
      | (scalar) "c \<noteq> CHR ''{''" "c \<noteq> CHR ''[''" by blast
    then show ?thesis
    proof cases
      case obj
      from a t obj obtain d r where u: "skipSpace cs = d # r" by (auto split: list.splits)
      have lr: "length r < length cs" using skipSpace_length [of cs] u by simp
      show ?thesis
      proof (cases "d = CHR ''}''")
        case True
        with a t obj u have res: "v = JObject []" "rest = r" by auto
        have "parseValue k s = Some (v, rest)" if "enough k s rest" for k
        proof -
          from that ls lr res have "k > 0" by (simp add: enough_def)
          then obtain k' where "k = Suc k'" by (cases k) auto
          then show ?thesis using t obj u True res by simp
        qed
        then show ?thesis using ls lr res by simp
      next
        case False
        with a t obj u obtain ms where m: "parseMembers n [] (d # r) = Some (ms, rest)" and v: "v = JObject ms"
          by auto
        from M [OF m] have l: "length rest < length (d # r)"
          and f: "\<And>k. enough k (d # r) rest \<Longrightarrow> parseMembers k [] (d # r) = Some (ms, rest)" by auto
        have "parseValue k s = Some (v, rest)" if "enough k s rest" for k
        proof -
          from that ls lr l have "k > 0" by (simp add: enough_def)
          then obtain k' where k: "k = Suc k'" by (cases k) auto
          have "enough k' (d # r) rest" using that ls lr l k by (simp add: enough_def)
          then show ?thesis using t obj u False v k f by simp
        qed
        then show ?thesis using ls lr l by simp
      qed
    next
      case arr
      from a t arr obtain d r where u: "skipSpace cs = d # r" by (auto split: list.splits)
      have lr: "length r < length cs" using skipSpace_length [of cs] u by simp
      show ?thesis
      proof (cases "d = CHR '']''")
        case True
        with a t arr u have res: "v = JArray []" "rest = r" by auto
        have "parseValue k s = Some (v, rest)" if "enough k s rest" for k
        proof -
          from that ls lr res have "k > 0" by (simp add: enough_def)
          then obtain k' where "k = Suc k'" by (cases k) auto
          then show ?thesis using t arr u True res by simp
        qed
        then show ?thesis using ls lr res by simp
      next
        case False
        with a t arr u obtain vs where m: "parseElements n [] (d # r) = Some (vs, rest)" and v: "v = JArray vs"
          by auto
        from E [OF m] have l: "length rest < length (d # r)"
          and f: "\<And>k. enough k (d # r) rest \<Longrightarrow> parseElements k [] (d # r) = Some (vs, rest)" by auto
        have "parseValue k s = Some (v, rest)" if "enough k s rest" for k
        proof -
          from that ls lr l have "k > 0" by (simp add: enough_def)
          then obtain k' where k: "k = Suc k'" by (cases k) auto
          have "enough k' (d # r) rest" using that ls lr l k by (simp add: enough_def)
          then show ?thesis using t arr u False v k f by simp
        qed
        then show ?thesis using ls lr l by simp
      qed
    next
      case scalar
      have same: "parseValue (Suc k') s = parseValue (Suc n) s" for k'
        using t scalar by simp
      have l: "length rest \<le> length cs"
        using a t scalar
        by (auto split: if_splits option.splits
                 dest!: scanString_length scanNumber_length stripPrefix_length)
      have "parseValue k s = Some (v, rest)" if "enough k s rest" for k
      proof -
        from that ls l have "k > 0" by (simp add: enough_def)
        then obtain k' where "k = Suc k'" by (cases k) auto
        then show ?thesis using same a by simp
      qed
      then show ?thesis using ls l by simp
    qed
  qed
  have pe: "length rest < length s \<and> (\<forall>k. enough k s rest \<longrightarrow> parseElements k acc s = Some (vs, rest))"
    if a: "parseElements (Suc n) acc s = Some (vs, rest)" for acc s vs rest
  proof -
    from a obtain v r where p: "parseValue n s = Some (v, r)" by (auto split: option.splits)
    from V [OF p] have lv: "length r < length s"
      and fv: "\<And>k. enough k s r \<Longrightarrow> parseValue k s = Some (v, r)" by auto
    from a p obtain d r' where u: "skipSpace r = d # r'" by (auto split: list.splits)
    have lr: "length r' < length r" using skipSpace_length [of r] u by simp
    show ?thesis
    proof (cases "d = CHR '',''")
      case True
      with a p u have m: "parseElements n (acc @ [v]) r' = Some (vs, rest)" by simp
      from E [OF m] have l: "length rest < length r'"
        and f: "\<And>k. enough k r' rest \<Longrightarrow> parseElements k (acc @ [v]) r' = Some (vs, rest)" by auto
      have "parseElements k acc s = Some (vs, rest)" if "enough k s rest" for k
      proof -
        from that lv lr l have "k > 0" by (simp add: enough_def)
        then obtain k' where k: "k = Suc k'" by (cases k) auto
        have "enough k' s r" "enough k' r' rest" using that lv lr l k by (simp_all add: enough_def)
        then show ?thesis using k u True fv f by simp
      qed
      then show ?thesis using lv lr l by simp
    next
      case False
      with a p u have res: "d = CHR '']''" "vs = acc @ [v]" "rest = r'" by (auto split: if_splits)
      have "parseElements k acc s = Some (vs, rest)" if "enough k s rest" for k
      proof -
        from that lv lr res have "k > 0" by (simp add: enough_def)
        then obtain k' where k: "k = Suc k'" by (cases k) auto
        have "enough k' s r" using that lv lr res k by (simp add: enough_def)
        then show ?thesis using k u res fv by simp
      qed
      then show ?thesis using lv lr res by simp
    qed
  qed
  have pm: "length rest < length s \<and> (\<forall>k. enough k s rest \<longrightarrow> parseMembers k acc s = Some (ms, rest))"
    if a: "parseMembers (Suc n) acc s = Some (ms, rest)" for acc s ms rest
  proof -
    from a obtain q cs where t: "skipSpace s = q # cs" by (auto split: list.splits)
    from a t have q: "q = CHR 0x22" by (auto split: if_splits)
    from a t q obtain raw r where sc: "scanString [] cs = Some (raw, r)" by (auto split: option.splits)
    from a t q sc obtain col r1 where u: "skipSpace r = col # r1" by (auto split: list.splits)
    from a t q sc u have col: "col = CHR '':''" by (auto split: if_splits)
    from a t q sc u col obtain v r2 where p: "parseValue n r1 = Some (v, r2)"
      by (auto split: option.splits)
    from a t q sc u col p obtain d r3 where w: "skipSpace r2 = d # r3" by (auto split: list.splits)
    have l0: "length cs < length s" using skipSpace_length [of s] t by simp
    have l1: "length r < length cs" using sc by (rule scanString_length)
    have l2: "length r1 < length r" using skipSpace_length [of r] u by simp
    from V [OF p] have l3: "length r2 < length r1"
      and fv: "\<And>k. enough k r1 r2 \<Longrightarrow> parseValue k r1 = Some (v, r2)" by auto
    have l4: "length r3 < length r2" using skipSpace_length [of r2] w by simp
    show ?thesis
    proof (cases "d = CHR '',''")
      case True
      with a t q sc u col p w have m: "parseMembers n (acc @ [(unquote 0 raw, v)]) r3 = Some (ms, rest)"
        by simp
      from M [OF m] have l: "length rest < length r3"
        and f: "\<And>k. enough k r3 rest \<Longrightarrow> parseMembers k (acc @ [(unquote 0 raw, v)]) r3 = Some (ms, rest)"
        by auto
      have "parseMembers k acc s = Some (ms, rest)" if "enough k s rest" for k
      proof -
        from that l0 l1 l2 l3 l4 l have "k > 0" by (simp add: enough_def)
        then obtain k' where k: "k = Suc k'" by (cases k) auto
        have "enough k' r1 r2" "enough k' r3 rest"
          using that l0 l1 l2 l3 l4 l k by (simp_all add: enough_def)
        then show ?thesis using k t q sc u col w True fv f by simp
      qed
      then show ?thesis using l0 l1 l2 l3 l4 l by simp
    next
      case False
      with a t q sc u col p w have res: "d = CHR ''}''" "ms = acc @ [(unquote 0 raw, v)]" "rest = r3"
        by (auto split: if_splits)
      have "parseMembers k acc s = Some (ms, rest)" if "enough k s rest" for k
      proof -
        from that l0 l1 l2 l3 l4 res have "k > 0" by (simp add: enough_def)
        then obtain k' where k: "k = Suc k'" by (cases k) auto
        have "enough k' r1 r2" using that l0 l1 l2 l3 l4 res k by (simp add: enough_def)
        then show ?thesis using k t q sc u col w res fv by simp
      qed
      then show ?thesis using l0 l1 l2 l3 l4 res by simp
    qed
  qed
  show ?case using pv pe pm by blast
qed

text \<open>
  The fuel that \<open>parseJSON\<close> gives is enough: a document that the parser accepts with
  some amount of fuel is accepted, with the same result, by \<open>parseJSON\<close>.
\<close>

lemma parseJSON_fuel:
  assumes "parseValue n data = Some (v, r)" and "skipSpace r = []"
  shows "parseJSON data = Some v"
proof -
  have "enough (2 * length data + 2) data r" by (simp add: enough_def)
  then have "parseValue (2 * length data + 2) data = Some (v, r)"
    using parse_adequate [of n] assms(1) by blast
  then show ?thesis using assms(2) by (simp add: parseJSON_def)
qed

section \<open>The request functions as a composition of stages\<close>

lemma doRequest_staged:
  "doRequest env c method path request response =
     (case JoinPath env (Client.BaseURL c) path of
        Inl e \<Rightarrow> \<lparr>err = Some (Errorf ''failed to build URL'' e), out = response, sent = None, receiver = c\<rparr>
      | Inr fullURL \<Rightarrow>
     (case prepareBody request of
        Inl e \<Rightarrow> \<lparr>err = Some (Errorf ''failed to marshal request'' e), out = response, sent = None, receiver = c\<rparr>
      | Inr body \<Rightarrow>
     (case NewRequest env method fullURL of
        Some e \<Rightarrow> \<lparr>err = Some (Errorf ''failed to create request'' e), out = response, sent = None, receiver = c\<rparr>
      | None \<Rightarrow> doRequest_exchange env c response (doRequest_req env c method fullURL request body))))"
  unfolding doRequest_def prepareBody_def doRequest_req_def doRequest_exchange_def doRequest_response_def Let_def
  by (simp cong: sum.case_cong option.case_cong prod.case_cong if_cong)

lemma Send_staged:
  "Send env c method request responseType =
     (case Send_encode env c method request of
        Inl e \<Rightarrow> \<lparr>err = Some e, out = None, sent = None, receiver = c\<rparr>
      | Inr (requestURL, body) \<Rightarrow>
     (case NewRequest env method requestURL of
        Some e \<Rightarrow> \<lparr>err = Some (Errorf ''failed to create request'' e), out = None, sent = None, receiver = c\<rparr>
      | None \<Rightarrow> Send_exchange env c responseType (Send_req env c method requestURL body)))"
  unfolding Send_def Send_encode_def Send_req_def Send_exchange_def Send_response_def Let_def
  by (simp cong: sum.case_cong option.case_cong prod.case_cong if_cong)

lemma doRequest_response_frame [simp]:
  "sent (doRequest_response c response req resp) = Some req"
  "receiver (doRequest_response c response req resp) = c"
  by (simp_all add: doRequest_response_def split: sum.split option.split prod.split)

lemma doRequest_exchange_frame [simp]:
  "sent (doRequest_exchange env c response req) = Some req"
  "receiver (doRequest_exchange env c response req) = c"
  by (simp_all add: doRequest_exchange_def split: sum.split)

lemma Send_response_frame [simp]:
  "sent (Send_response c responseType req resp) = Some req"
  "receiver (Send_response c responseType req resp) = c"
  by (simp_all add: Send_response_def split: sum.split option.split prod.split)

lemma Send_exchange_frame [simp]:
  "sent (Send_exchange env c responseType req) = Some req"
  "receiver (Send_exchange env c responseType req) = c"
  by (simp_all add: Send_exchange_def split: sum.split)

lemma doRequest_receiver: "receiver (doRequest env c method path request response) = c"
  by (simp add: doRequest_staged split: sum.split option.split)

lemma Send_receiver: "receiver (Send env c method request responseType) = c"
  by (simp add: Send_staged split: sum.split option.split prod.split)

text \<open>A call that handed a request to the HTTP client got through the earlier stages.\<close>

lemma doRequest_sentD:
  assumes "sent (doRequest env c method path request response) = Some req"
  shows "\<exists>fullURL body.
           JoinPath env (Client.BaseURL c) path = Inr fullURL
           \<and> prepareBody request = Inr body
           \<and> NewRequest env method fullURL = None
           \<and> req = doRequest_req env c method fullURL request body
           \<and> doRequest env c method path request response = doRequest_exchange env c response req"
  using assms by (auto simp: doRequest_staged split: sum.splits option.splits)

lemma Send_sentD:
  assumes "sent (Send env c method request responseType) = Some req"
  shows "\<exists>requestURL body.
           Send_encode env c method request = Inr (requestURL, body)
           \<and> NewRequest env method requestURL = None
           \<and> req = Send_req env c method requestURL body
           \<and> Send env c method request responseType = Send_exchange env c responseType req"
  using assms by (auto simp: Send_staged split: sum.splits option.splits prod.splits)

section \<open>Evaluating the test fixtures\<close>

lemma testServer_simps [simp]:
  "JoinPath (testServer code status body) base path = Inr (base @ path)"
  "NewRequest (testServer code status body) method url = None"
  "Do (testServer code status body) hc req = Inr \<lparr>StatusCode = code, Status = status, Body = Inr body\<rparr>"
  "rangeHeaders (testServer code status body) = id"
  "rangeData (testServer code status body) = id"
  "formatFloat (testServer code status body) = Some"
  by (simp_all add: testServer_def)

lemma helloWorld_json:
  "parseJSON helloWorldJSON = Some (JObject [(''name'', JString ''World'')])"
  by code_simp

lemma helloWorld_query: "toQueryString (testServer code status body) (Some helloWorld) = Inr ''name=World''"
  apply (simp add: toQueryString_def json_Marshal_def helloWorld_def Unmarshal_map_def helloWorld_json mapOf_def )
  apply (simp add: Add_def Get_values_def Encode_def QueryEscape_def escapeByte_def shouldEscape_def isAlnum_def isDigit_def)
  done

lemma helloResult_json:
  "parseJSON helloResultJSON = Some (JObject [(''result'', JString ''Hello, World!'')])"
  by code_simp

lemma helloResult_decoded:
  "json_Unmarshal helloResultJSON newHelloResponse
     = (None, newHelloResponse\<lparr>pointee := \<lparr>Result = ''Hello, World!''\<rparr>\<rparr>)"
  by (simp add: json_Unmarshal_def helloResult_json newHelloResponse_def decodeHelloResponse_def
        setHelloResponseField_def toLower_def isUpper_def)

lemma helloWorld_path: "getRequestPath j (Some helloWorld) = ''/json/reply/HelloRequest''"
  by (simp add: getRequestPath_def Sprintf_T_def helloWorld_def TrimPrefix_def)

lemma helloWorld_POST:
  "Send_encode (testServer code status body) j ''POST'' (Some helloWorld)
     = Inr (JsonServiceClient.BaseURL j @ ''/json/reply/HelloRequest'', Some helloWorldJSON)"
  by (simp add: Send_encode_def helloWorld_path json_Marshal_def) (simp add: helloWorld_def)

lemma helloWorld_GET:
  "Send_encode (testServer code status body) j ''GET'' (Some helloWorld)
     = Inr (JsonServiceClient.BaseURL j @ ''/json/reply/HelloRequest?name=World'', None)"
  by (simp add: Send_encode_def helloWorld_path helloWorld_query)

lemma canonical_fixture_keys:
  "CanonicalMIMEHeaderKey ''X-Custom-Header'' = ''X-Custom-Header''"
  "CanonicalMIMEHeaderKey ''Authorization'' = ''Authorization''"
  by code_simp+

section \<open>The text of a service exception\<close>

lemma digit_char: "n < 10 \<Longrightarrow> (of_char (''0123456789'' ! n) :: nat) = 48 + n"
proof -
  assume "n < 10"
  then have "n \<in> {0,1,2,3,4,5,6,7,8,9}" by auto
  then show ?thesis by auto
qed

lemma digitsValue_decimal: "digitsValue (decimal n) = n"
proof (induction n rule: decimal.induct)
  case (1 n)
  show ?case
  proof (cases "n < 10")
    case True
    then show ?thesis by (subst decimal.simps) (simp add: digitsValue_def digit_char)
  next
    case False
    then have "digitsValue (decimal (n div 10)) = n div 10" using 1 by simp
    moreover have "n mod 10 < 10" by simp
    ultimately show ?thesis using False
      by (subst decimal.simps) (simp add: digitsValue_def digit_char)
  qed
qed

text \<open>
  C7. The text of a WebServiceException is "<code> <statusText>: <message>" when the
  message of its envelope is not empty and "<code> <statusText>" when it is empty, where
  <code> is the status code in decimal.
\<close>

theorem Error_rendering:
  "(msg \<noteq> [] \<longrightarrow>
      Error \<lparr>WebServiceException.StatusCode = code, StatusDescription = statusText,
             ResponseStatus = rs\<lparr>ResponseStatus.Message := msg\<rparr>\<rparr>
        = Itoa code @ '' '' @ statusText @ '': '' @ msg)
   \<and> (msg = [] \<longrightarrow>
      Error \<lparr>WebServiceException.StatusCode = code, StatusDescription = statusText,
             ResponseStatus = rs\<lparr>ResponseStatus.Message := msg\<rparr>\<rparr>
        = Itoa code @ '' '' @ statusText)"
  by (simp add: Error_def)

theorem Error_rendering_witness:
  "Error \<lparr>WebServiceException.StatusCode = 400, StatusDescription = ''Bad Request'',
          ResponseStatus = zeroResponseStatus\<lparr>ResponseStatus.ErrorCode := ''ValidationError'',
                                              ResponseStatus.Message := ''Validation failed''\<rparr>\<rparr>
     = ''400 Bad Request: Validation failed''
   \<and> Error \<lparr>WebServiceException.StatusCode = 500, StatusDescription = ''Internal Server Error'',
            ResponseStatus = zeroResponseStatus\<lparr>ResponseStatus.Message := []\<rparr>\<rparr>
     = ''500 Internal Server Error''"
  using Error_rendering [of "''Validation failed''" 400 "''Bad Request''"
          "zeroResponseStatus\<lparr>ResponseStatus.ErrorCode := ''ValidationError''\<rparr>"]
        Error_rendering [of "[]" 500 "''Internal Server Error''" zeroResponseStatus]
  by (simp add: Itoa_def decimal.simps)

section \<open>Credential helpers\<close>

lemma update_filter_key:
  "distinct (map fst hs) \<Longrightarrow> filter (\<lambda>kv. fst kv = k) (AList.update k v hs) = [(k, v)]"
proof (induction hs)
  case Nil
  then show ?case by simp
next
  case (Cons p ps)
  show ?case
  proof (cases "fst p = k")
    case True
    then have "k \<notin> fst ` set ps" using Cons.prems by auto
    then have "filter (\<lambda>kv. fst kv = k) ps = []" by (auto simp: filter_empty_conv)
    with True show ?thesis by (cases p) simp
  next
    case False
    then show ?thesis using Cons by (cases p) simp
  qed
qed

lemma applyAuth_Headers:
  "JsonServiceClient.Headers (applyAuth c a) = AList.update ''Authorization'' (authValue a) (JsonServiceClient.Headers c)"
  by (cases a) (simp_all add: SetBearerToken_def SetCredentials_def)

lemma applyAuth_distinct:
  "distinct (map fst (JsonServiceClient.Headers c)) \<Longrightarrow> distinct (map fst (JsonServiceClient.Headers (applyAuth c a)))"
  by (simp add: applyAuth_Headers distinct_update)

lemma foldl_applyAuth_distinct:
  "distinct (map fst (JsonServiceClient.Headers c)) \<Longrightarrow>
   distinct (map fst (JsonServiceClient.Headers (foldl applyAuth c calls)))"
  by (induction calls arbitrary: c) (simp_all add: applyAuth_distinct)

text \<open>
  C8. SetBearerToken with "abc" stores "Bearer abc" under "Authorization" and
  SetCredentials with "user", "pass" stores "Basic dXNlcjpwYXNz"; after any non-empty
  sequence of such calls the header mapping has exactly one entry for "Authorization",
  the value of the last call.
\<close>

theorem Authorization_overwritten:
  "map_of (JsonServiceClient.Headers (SetBearerToken c ''abc'')) ''Authorization'' = Some ''Bearer abc''
   \<and> map_of (JsonServiceClient.Headers (SetCredentials c ''user'' ''pass'')) ''Authorization''
        = Some ''Basic dXNlcjpwYXNz''
   \<and> (distinct (map fst (JsonServiceClient.Headers c)) \<and> calls \<noteq> [] \<longrightarrow>
        filter (\<lambda>kv. fst kv = ''Authorization'') (JsonServiceClient.Headers (foldl applyAuth c calls))
          = [(''Authorization'', authValue (last calls))])"
proof (intro conjI impI)
  show "map_of (JsonServiceClient.Headers (SetBearerToken c ''abc'')) ''Authorization'' = Some ''Bearer abc''"
    by (simp add: SetBearerToken_def update_conv')
  have b: "basicAuth ''user'' ''pass'' = ''dXNlcjpwYXNz''"
    by (simp add: basicAuth_def sextet_def encodeStd_def)
  show "map_of (JsonServiceClient.Headers (SetCredentials c ''user'' ''pass'')) ''Authorization''
        = Some ''Basic dXNlcjpwYXNz''"
    by (simp add: SetCredentials_def update_conv' b)
next
  assume a: "distinct (map fst (JsonServiceClient.Headers c)) \<and> calls \<noteq> []"
  then obtain cs x where calls: "calls = cs @ [x]" by (metis rev_exhaust)
  have d: "distinct (map fst (JsonServiceClient.Headers (foldl applyAuth c cs)))"
    using a by (simp add: foldl_applyAuth_distinct)
  show "filter (\<lambda>kv. fst kv = ''Authorization'') (JsonServiceClient.Headers (foldl applyAuth c calls))
          = [(''Authorization'', authValue (last calls))]"
    using d by (simp add: calls applyAuth_Headers update_filter_key)
qed

theorem Authorization_overwritten_witness:
  "filter (\<lambda>kv. fst kv = ''Authorization'')
     (JsonServiceClient.Headers
        (foldl applyAuth (NewJsonServiceClient ''https://test.servicestack.net'')
           [Credentials ''user'' ''pass'', BearerToken ''abc'']))
     = [(''Authorization'', ''Bearer abc'')]"
  using Authorization_overwritten [of "NewJsonServiceClient ''https://test.servicestack.net''"
          "[Credentials ''user'' ''pass'', BearerToken ''abc'']"]
  by (simp add: NewJsonServiceClient_def)

section \<open>Sending a request leaves the configuration alone\<close>

text \<open>
  C9. No request-sending operation writes the client's configuration: after doRequest
  (hence Get, Post, Put, Patch, Delete of the generic client) and after Send (hence the
  five methods of the convention-based client) the receiver, that is its base URL, its
  header mapping and its timeout, is what it was before, whatever the outcome.
\<close>

theorem configuration_unchanged:
  "receiver (doRequest env c method path request response) = c
   \<and> receiver (Client_Get env c path response) = c
   \<and> receiver (Client_Post env c path request response) = c
   \<and> receiver (Client_Put env c path request response) = c
   \<and> receiver (Client_Delete env c path response) = c
   \<and> receiver (Client_Patch env c path request response) = c
   \<and> receiver (Send env j method request responseType) = j
   \<and> receiver (JsonServiceClient_Get env j r) = j
   \<and> receiver (JsonServiceClient_Post env j r) = j
   \<and> receiver (JsonServiceClient_Put env j r) = j
   \<and> receiver (JsonServiceClient_Delete env j r) = j
   \<and> receiver (JsonServiceClient_Patch env j r) = j"
  by (simp add: doRequest_receiver Send_receiver Client_Get_def Client_Post_def Client_Put_def
        Client_Delete_def Client_Patch_def JsonServiceClient_Get_def JsonServiceClient_Post_def
        JsonServiceClient_Put_def JsonServiceClient_Delete_def JsonServiceClient_Patch_def)

section \<open>An empty body on a success status\<close>

lemma json_Unmarshal_empty: "json_Unmarshal [] p = (Some SyntaxError, p)"
  by (simp add: json_Unmarshal_def parseJSON_def skipSpace_def)

text \<open>
  C6. When the server answers with a success status and an empty body, doRequest returns
  no error and leaves the caller's response value as it was; Send, given a response type,
  does not: it returns the decoder's error and no value.
\<close>

theorem empty_body_on_success:
  "(sent (doRequest env c verb path request response) = Some req
      \<and> Do env (HTTPClient c) req = Inr resp \<and> Response.Body resp = Inr []
      \<and> 200 \<le> Response.StatusCode resp \<and> Response.StatusCode resp < 300
    \<longrightarrow> err (doRequest env c verb path request response) = None
        \<and> out (doRequest env c verb path request response) = response)
   \<and> (sent (Send env j verb' request' (Some p)) = Some req'
      \<and> Do env (httpClient j) req' = Inr resp' \<and> Response.Body resp' = Inr []
      \<and> 200 \<le> Response.StatusCode resp' \<and> Response.StatusCode resp' < 300
    \<longrightarrow> err (Send env j verb' request' (Some p)) = Some (Errorf ''failed to unmarshal response'' SyntaxError)
        \<and> out (Send env j verb' request' (Some p)) = None)"
proof (intro conjI impI)
  assume a: "sent (doRequest env c verb path request response) = Some req
      \<and> Do env (HTTPClient c) req = Inr resp \<and> Response.Body resp = Inr []
      \<and> 200 \<le> Response.StatusCode resp \<and> Response.StatusCode resp < 300"
  then have e: "doRequest env c verb path request response = doRequest_exchange env c response req"
    using doRequest_sentD by blast
  show "err (doRequest env c verb path request response) = None"
    using a by (simp add: e doRequest_exchange_def doRequest_response_def split: option.split)
  show "out (doRequest env c verb path request response) = response"
    using a by (simp add: e doRequest_exchange_def doRequest_response_def split: option.split)
next
  assume a: "sent (Send env j verb' request' (Some p)) = Some req'
      \<and> Do env (httpClient j) req' = Inr resp' \<and> Response.Body resp' = Inr []
      \<and> 200 \<le> Response.StatusCode resp' \<and> Response.StatusCode resp' < 300"
  then have e: "Send env j verb' request' (Some p) = Send_exchange env j (Some p) req'"
    using Send_sentD by blast
  show "err (Send env j verb' request' (Some p)) = Some (Errorf ''failed to unmarshal response'' SyntaxError)"
    using a by (simp add: e Send_exchange_def Send_response_def json_Unmarshal_empty)
  show "out (Send env j verb' request' (Some p)) = None"
    using a by (simp add: e Send_exchange_def Send_response_def json_Unmarshal_empty)
qed

theorem empty_body_on_success_witness:
  "err (Client_Get (testServer 200 ''200 OK'' []) (NewClient ''http://127.0.0.1'') ''/test'' (Some newHelloResponse)) = None
   \<and> out (Client_Get (testServer 200 ''200 OK'' []) (NewClient ''http://127.0.0.1'') ''/test'' (Some newHelloResponse))
       = Some newHelloResponse
   \<and> err (Send (testServer 200 ''200 OK'' []) (NewJsonServiceClient ''http://127.0.0.1'') ''GET''
            (Some helloWorld) (Some newHelloResponse))
       = Some (Errorf ''failed to unmarshal response'' SyntaxError)
   \<and> out (Send (testServer 200 ''200 OK'' []) (NewJsonServiceClient ''http://127.0.0.1'') ''GET''
            (Some helloWorld) (Some newHelloResponse)) = None"
proof -
  let ?env = "testServer 200 ''200 OK'' []"
  let ?c = "NewClient ''http://127.0.0.1''"
  let ?j = "NewJsonServiceClient ''http://127.0.0.1''"
  let ?resp = "\<lparr>StatusCode = 200, Status = ''200 OK'', Body = Inr []\<rparr>"
  let ?req = "doRequest_req ?env ?c ''GET'' ''http://127.0.0.1/test'' None None"
  let ?req' = "Send_req ?env ?j ''GET'' ''http://127.0.0.1/json/reply/HelloRequest?name=World'' None"
  have s: "sent (doRequest ?env ?c ''GET'' ''/test'' None (Some newHelloResponse)) = Some ?req"
    by (simp add: doRequest_staged prepareBody_def NewClient_def)
  have p: "getRequestPath ?j (Some helloWorld) = ''/json/reply/HelloRequest''"
    by (simp add: getRequestPath_def Sprintf_T_def helloWorld_def TrimPrefix_def)
  have s': "sent (Send ?env ?j ''GET'' (Some helloWorld) (Some newHelloResponse)) = Some ?req'"
    by (simp add: Send_staged Send_encode_def p helloWorld_query) (simp add: NewJsonServiceClient_def)
  show ?thesis
    using empty_body_on_success [of ?env ?c "''GET''" "''/test''" None "Some newHelloResponse" ?req ?resp
            ?j "''GET''" "Some helloWorld" newHelloResponse ?req' ?resp] s s'
    by (simp add: Client_Get_def)
qed

section \<open>Which status codes are failures\<close>

text \<open>
  C1 as stated fails for Send: a status of 300 is outside 200-299, and Send returns no
  error and the decoded response.
\<close>

theorem Send_status_300_counterexample:
  "err (Send (testServer 300 ''300 Multiple Choices'' helloResultJSON)
          (NewJsonServiceClient ''http://127.0.0.1'') ''POST'' (Some helloWorld) (Some newHelloResponse))
     = None
   \<and> out (Send (testServer 300 ''300 Multiple Choices'' helloResultJSON)
          (NewJsonServiceClient ''http://127.0.0.1'') ''POST'' (Some helloWorld) (Some newHelloResponse))
     = Some (newHelloResponse\<lparr>pointee := \<lparr>Result = ''Hello, World!''\<rparr>\<rparr>)"
  by (simp add: Send_staged helloWorld_POST Send_exchange_def Send_response_def helloResult_decoded)

lemma doRequest_no_error:
  assumes "err (doRequest env c verb path request response) = None"
  shows "\<exists>req resp body.
           sent (doRequest env c verb path request response) = Some req
           \<and> Do env (HTTPClient c) req = Inr resp \<and> Response.Body resp = Inr body
           \<and> 200 \<le> Response.StatusCode resp \<and> Response.StatusCode resp < 300"
  using assms
  by (auto simp: doRequest_staged doRequest_exchange_def doRequest_response_def
           split: sum.splits option.splits if_splits prod.splits)

lemma Send_value:
  assumes "out (Send env j verb request responseType) \<noteq> None"
  shows "\<exists>req resp body.
           sent (Send env j verb request responseType) = Some req
           \<and> Do env (httpClient j) req = Inr resp \<and> Response.Body resp = Inr body
           \<and> Response.StatusCode resp < 400 \<and> err (Send env j verb request responseType) = None"
  using assms
  by (auto simp: Send_staged Send_exchange_def Send_response_def
           split: sum.splits option.splits if_splits prod.splits)

lemma parseError_ServiceError:
  "\<exists>w. parseError j code status body = ServiceError w
        \<and> WebServiceException.StatusCode w = code \<and> StatusDescription w = status"
  by (simp add: parseError_def split: sum.split)

text \<open>
  C1, amended. Once the server has answered and the body has been read: doRequest
  returns the plain status+body error and leaves the caller's response value untouched
  whenever the status is outside 200-299, and returns no error only for a status in
  200-299. Send returns a WebServiceException carrying the status code and status text,
  and no value, exactly when the status is 400 or more; it returns a value only for a
  status below 400.
\<close>

theorem status_classification:
  "(sent (doRequest env c verb path request response) = Some req
      \<and> Do env (HTTPClient c) req = Inr resp \<and> Response.Body resp = Inr body
      \<and> (Response.StatusCode resp < 200 \<or> 300 \<le> Response.StatusCode resp)
    \<longrightarrow> err (doRequest env c verb path request response)
          = Some (StatusErrorf (Response.StatusCode resp) body)
        \<and> out (doRequest env c verb path request response) = response)
   \<and> (err (doRequest env c verb path request response) = None
    \<longrightarrow> (\<exists>req resp body.
           sent (doRequest env c verb path request response) = Some req
           \<and> Do env (HTTPClient c) req = Inr resp \<and> Response.Body resp = Inr body
           \<and> 200 \<le> Response.StatusCode resp \<and> Response.StatusCode resp < 300))
   \<and> (sent (Send env j verb' request' responseType) = Some req'
      \<and> Do env (httpClient j) req' = Inr resp' \<and> Response.Body resp' = Inr body'
    \<longrightarrow> (400 \<le> Response.StatusCode resp'
          \<longrightarrow> (\<exists>w. err (Send env j verb' request' responseType) = Some (ServiceError w)
                  \<and> WebServiceException.StatusCode w = Response.StatusCode resp'
                  \<and> StatusDescription w = Status resp')
              \<and> out (Send env j verb' request' responseType) = None)
        \<and> (Response.StatusCode resp' < 400
          \<longrightarrow> (\<forall>w. err (Send env j verb' request' responseType) \<noteq> Some (ServiceError w))))
   \<and> (out (Send env j verb' request' responseType) \<noteq> None
    \<longrightarrow> (\<exists>req resp body.
           sent (Send env j verb' request' responseType) = Some req
           \<and> Do env (httpClient j) req = Inr resp \<and> Response.Body resp = Inr body
           \<and> Response.StatusCode resp < 400
           \<and> err (Send env j verb' request' responseType) = None))"
proof (intro conjI impI)
  assume a: "sent (doRequest env c verb path request response) = Some req
      \<and> Do env (HTTPClient c) req = Inr resp \<and> Response.Body resp = Inr body
      \<and> (Response.StatusCode resp < 200 \<or> 300 \<le> Response.StatusCode resp)"
  then have e: "doRequest env c verb path request response = doRequest_exchange env c response req"
    using doRequest_sentD by blast
  show "err (doRequest env c verb path request response) = Some (StatusErrorf (Response.StatusCode resp) body)"
    using a by (auto simp: e doRequest_exchange_def doRequest_response_def)
  show "out (doRequest env c verb path request response) = response"
    using a by (auto simp: e doRequest_exchange_def doRequest_response_def)
next
  assume "err (doRequest env c verb path request response) = None"
  then show "\<exists>req resp body.
           sent (doRequest env c verb path request response) = Some req
           \<and> Do env (HTTPClient c) req = Inr resp \<and> Response.Body resp = Inr body
           \<and> 200 \<le> Response.StatusCode resp \<and> Response.StatusCode resp < 300"
    by (rule doRequest_no_error)
next
  assume a: "sent (Send env j verb' request' responseType) = Some req'
      \<and> Do env (httpClient j) req' = Inr resp' \<and> Response.Body resp' = Inr body'"
  then have e: "Send env j verb' request' responseType = Send_exchange env j responseType req'"
    using Send_sentD by blast
  {
    assume s: "400 \<le> Response.StatusCode resp'"
    obtain w where w: "parseError j (Response.StatusCode resp') (Status resp') body' = ServiceError w"
      "WebServiceException.StatusCode w = Response.StatusCode resp'" "StatusDescription w = Status resp'"
      using parseError_ServiceError by blast
    show "\<exists>w. err (Send env j verb' request' responseType) = Some (ServiceError w)
                  \<and> WebServiceException.StatusCode w = Response.StatusCode resp'
                  \<and> StatusDescription w = Status resp'"
      using a s w by (simp add: e Send_exchange_def Send_response_def)
    show "out (Send env j verb' request' responseType) = None"
      using a s by (simp add: e Send_exchange_def Send_response_def)
  }
  {
    assume s: "Response.StatusCode resp' < 400"
    show "\<forall>w. err (Send env j verb' request' responseType) \<noteq> Some (ServiceError w)"
      using a s by (auto simp: e Send_exchange_def Send_response_def split: option.splits prod.splits)
  }
next
  assume "out (Send env j verb' request' responseType) \<noteq> None"
  then show "\<exists>req resp body.
           sent (Send env j verb' request' responseType) = Some req
           \<and> Do env (httpClient j) req = Inr resp \<and> Response.Body resp = Inr body
           \<and> Response.StatusCode resp < 400
           \<and> err (Send env j verb' request' responseType) = None"
    by (rule Send_value)
qed

theorem status_classification_witness:
  "err (doRequest (testServer 400 ''400 Bad Request'' ''Bad Request'') (NewClient ''http://127.0.0.1'')
          ''GET'' ''/test'' None (Some newHelloResponse))
     = Some (StatusErrorf 400 ''Bad Request'')
   \<and> out (doRequest (testServer 400 ''400 Bad Request'' ''Bad Request'') (NewClient ''http://127.0.0.1'')
          ''GET'' ''/test'' None (Some newHelloResponse))
     = Some newHelloResponse
   \<and> (\<exists>w. err (Send (testServer 400 ''400 Bad Request'' ''Bad Request'')
                 (NewJsonServiceClient ''http://127.0.0.1'') ''POST'' (Some helloWorld) (Some newHelloResponse))
              = Some (ServiceError w)
          \<and> WebServiceException.StatusCode w = 400 \<and> StatusDescription w = ''400 Bad Request'')
   \<and> out (Send (testServer 400 ''400 Bad Request'' ''Bad Request'')
                 (NewJsonServiceClient ''http://127.0.0.1'') ''POST'' (Some helloWorld) (Some newHelloResponse))
     = None
   \<and> err (doRequest (testServer 200 ''200 OK'' helloResultJSON) (NewClient ''http://127.0.0.1'')
          ''GET'' ''/test'' None (Some newHelloResponse)) = None
   \<and> (\<exists>req resp. sent (doRequest (testServer 200 ''200 OK'' helloResultJSON) (NewClient ''http://127.0.0.1'')
                          ''GET'' ''/test'' None (Some newHelloResponse)) = Some req
          \<and> Do (testServer 200 ''200 OK'' helloResultJSON) (HTTPClient (NewClient ''http://127.0.0.1'')) req = Inr resp
          \<and> 200 \<le> Response.StatusCode resp \<and> Response.StatusCode resp < 300)
   \<and> out (Send (testServer 200 ''200 OK'' helloResultJSON)
                 (NewJsonServiceClient ''http://127.0.0.1'') ''POST'' (Some helloWorld) (Some newHelloResponse))
     \<noteq> None
   \<and> (\<forall>w. err (Send (testServer 200 ''200 OK'' helloResultJSON)
                 (NewJsonServiceClient ''http://127.0.0.1'') ''POST'' (Some helloWorld) (Some newHelloResponse))
              \<noteq> Some (ServiceError w))"
proof -
  let ?A = "testServer 400 ''400 Bad Request'' ''Bad Request''"
  let ?B = "testServer 200 ''200 OK'' helloResultJSON"
  let ?c = "NewClient ''http://127.0.0.1''"
  let ?j = "NewJsonServiceClient ''http://127.0.0.1''"
  let ?rt = "Some newHelloResponse"
  let ?respA = "\<lparr>StatusCode = 400, Status = ''400 Bad Request'', Body = Inr ''Bad Request''\<rparr>"
  let ?respB = "\<lparr>StatusCode = 200, Status = ''200 OK'', Body = Inr helloResultJSON\<rparr>"
  let ?url = "''http://127.0.0.1/json/reply/HelloRequest''"
  have u: "JsonServiceClient.BaseURL ?j = ''http://127.0.0.1''" "Client.BaseURL ?c = ''http://127.0.0.1''"
    by (simp_all add: NewJsonServiceClient_def NewClient_def)
  have sA: "sent (doRequest ?A ?c ''GET'' ''/test'' None ?rt)
              = Some (doRequest_req ?A ?c ''GET'' ''http://127.0.0.1/test'' None None)"
    by (simp add: doRequest_staged prepareBody_def u)
  have sB: "sent (doRequest ?B ?c ''GET'' ''/test'' None ?rt)
              = Some (doRequest_req ?B ?c ''GET'' ''http://127.0.0.1/test'' None None)"
    by (simp add: doRequest_staged prepareBody_def u)
  have tA: "sent (Send ?A ?j ''POST'' (Some helloWorld) ?rt)
              = Some (Send_req ?A ?j ''POST'' ?url (Some helloWorldJSON))"
    by (simp add: Send_staged helloWorld_POST u)
  have tB: "sent (Send ?B ?j ''POST'' (Some helloWorld) ?rt)
              = Some (Send_req ?B ?j ''POST'' ?url (Some helloWorldJSON))"
    by (simp add: Send_staged helloWorld_POST u)
  have eB: "err (doRequest ?B ?c ''GET'' ''/test'' None ?rt) = None"
    by (simp add: doRequest_staged prepareBody_def doRequest_exchange_def doRequest_response_def
          helloResult_decoded)
  have oB: "out (Send ?B ?j ''POST'' (Some helloWorld) ?rt) \<noteq> None"
    by (simp add: Send_staged helloWorld_POST Send_exchange_def Send_response_def helloResult_decoded)
  note A = status_classification [where env = ?A and c = ?c and verb = "''GET''" and path = "''/test''"
      and request = None and response = ?rt and resp = ?respA and body = "''Bad Request''"
      and req = "doRequest_req ?A ?c ''GET'' ''http://127.0.0.1/test'' None None"
      and j = ?j and verb' = "''POST''" and request' = "Some helloWorld" and responseType = ?rt
      and req' = "Send_req ?A ?j ''POST'' ?url (Some helloWorldJSON)" and resp' = ?respA
      and body' = "''Bad Request''"]
  note B = status_classification [where env = ?B and c = ?c and verb = "''GET''" and path = "''/test''"
      and request = None and response = ?rt and resp = ?respB and body = helloResultJSON
      and req = "doRequest_req ?B ?c ''GET'' ''http://127.0.0.1/test'' None None"
      and j = ?j and verb' = "''POST''" and request' = "Some helloWorld" and responseType = ?rt
      and req' = "Send_req ?B ?j ''POST'' ?url (Some helloWorldJSON)" and resp' = ?respB
      and body' = helloResultJSON]
  have 1: "err (doRequest ?A ?c ''GET'' ''/test'' None ?rt) = Some (StatusErrorf 400 ''Bad Request'')
         \<and> out (doRequest ?A ?c ''GET'' ''/test'' None ?rt) = ?rt"
    using A sA by simp
  have 2: "(\<exists>w. err (Send ?A ?j ''POST'' (Some helloWorld) ?rt) = Some (ServiceError w)
              \<and> WebServiceException.StatusCode w = 400 \<and> StatusDescription w = ''400 Bad Request'')
         \<and> out (Send ?A ?j ''POST'' (Some helloWorld) ?rt) = None"
    using A tA by simp
  have 3: "\<exists>req resp. sent (doRequest ?B ?c ''GET'' ''/test'' None ?rt) = Some req
          \<and> Do ?B (HTTPClient ?c) req = Inr resp
          \<and> 200 \<le> Response.StatusCode resp \<and> Response.StatusCode resp < 300"
    using B eB by blast
  have 4: "\<forall>w. err (Send ?B ?j ''POST'' (Some helloWorld) ?rt) \<noteq> Some (ServiceError w)"
    using B tB by simp
  show ?thesis using 1 2 3 4 eB oB by blast
qed

section \<open>The headers of an outgoing request\<close>

lemma canonical_defaults [simp]:
  "CanonicalMIMEHeaderKey ''Accept'' = ''Accept''"
  "CanonicalMIMEHeaderKey ''Content-Type'' = ''Content-Type''"
  by code_simp+

lemma applyHeaders_other:
  "\<forall>kv\<in>set hs. CanonicalMIMEHeaderKey (fst kv) \<noteq> k \<Longrightarrow> applyHeaders hs h k = h k"
  unfolding applyHeaders_def
  by (induction hs arbitrary: h) (auto simp: Header_Set_def)

lemma rangeOrder_set: "rangeOrder f \<Longrightarrow> set (f xs) = set xs"
  unfolding rangeOrder_def by (metis mset_eq_setD)

lemma rangeOrder_id [simp]: "rangeOrder id"
  by (simp add: rangeOrder_def)

text \<open>
  C5 as stated fails twice: a GET of the convention-based client has no body and carries
  Content-Type: application/json; and a configured Accept header replaces
  Accept: application/json.
\<close>

theorem default_headers_counterexample:
  "sent (Send (testServer 200 ''200 OK'' helloResultJSON) (NewJsonServiceClient ''http://127.0.0.1'')
          ''GET'' (Some helloWorld) (Some newHelloResponse))
     = Some (Send_req (testServer 200 ''200 OK'' helloResultJSON) (NewJsonServiceClient ''http://127.0.0.1'')
               ''GET'' ''http://127.0.0.1/json/reply/HelloRequest?name=World'' None)
   \<and> Request.Body (Send_req (testServer 200 ''200 OK'' helloResultJSON) (NewJsonServiceClient ''http://127.0.0.1'')
               ''GET'' ''http://127.0.0.1/json/reply/HelloRequest?name=World'' None) = None
   \<and> Header (Send_req (testServer 200 ''200 OK'' helloResultJSON) (NewJsonServiceClient ''http://127.0.0.1'')
               ''GET'' ''http://127.0.0.1/json/reply/HelloRequest?name=World'' None) ''Content-Type''
        = Some ''application/json''
   \<and> sent (doRequest (testServer 200 ''200 OK'' helloResultJSON)
             (SetHeader (NewClient ''http://127.0.0.1'') ''Accept'' ''text/xml'')
             ''GET'' ''/test'' None (Some newHelloResponse))
     = Some (doRequest_req (testServer 200 ''200 OK'' helloResultJSON)
               (SetHeader (NewClient ''http://127.0.0.1'') ''Accept'' ''text/xml'')
               ''GET'' ''http://127.0.0.1/test'' None None)
   \<and> Header (doRequest_req (testServer 200 ''200 OK'' helloResultJSON)
               (SetHeader (NewClient ''http://127.0.0.1'') ''Accept'' ''text/xml'')
               ''GET'' ''http://127.0.0.1/test'' None None) ''Accept''
        = Some ''text/xml''"
  by (simp add: Send_staged helloWorld_GET doRequest_staged prepareBody_def)
     (simp add: Send_req_def doRequest_req_def NewJsonServiceClient_def NewClient_def SetHeader_def
        applyHeaders_def Header_Set_def)

text \<open>
  C5, amended. A request of either client carries Accept: application/json unless a
  configured header whose canonical name is Accept replaces it. Unless a configured
  header named Content-Type replaces it, a request of the generic client carries
  Content-Type: application/json exactly when it has a body, and a request of the
  convention-based client carries it whenever it has a body.
\<close>

theorem request_headers:
  assumes "rangeOrder (rangeHeaders env)"
  shows
  "(sent (doRequest env c verb path request response) = Some req \<longrightarrow>
      ((\<forall>kv\<in>set (Client.Headers c). CanonicalMIMEHeaderKey (fst kv) \<noteq> ''Accept'')
         \<longrightarrow> Header req ''Accept'' = Some ''application/json'')
    \<and> ((\<forall>kv\<in>set (Client.Headers c). CanonicalMIMEHeaderKey (fst kv) \<noteq> ''Content-Type'')
         \<longrightarrow> Header req ''Content-Type''
               = (if Request.Body req \<noteq> None then Some ''application/json'' else None)))
   \<and> (sent (Send env j verb' request' responseType) = Some req' \<longrightarrow>
      ((\<forall>kv\<in>set (JsonServiceClient.Headers j). CanonicalMIMEHeaderKey (fst kv) \<noteq> ''Accept'')
         \<longrightarrow> Header req' ''Accept'' = Some ''application/json'')
    \<and> ((\<forall>kv\<in>set (JsonServiceClient.Headers j). CanonicalMIMEHeaderKey (fst kv) \<noteq> ''Content-Type'')
          \<and> Request.Body req' \<noteq> None
         \<longrightarrow> Header req' ''Content-Type'' = Some ''application/json''))"
proof (intro conjI impI)
  assume s: "sent (doRequest env c verb path request response) = Some req"
  then obtain fullURL body where b: "prepareBody request = Inr body"
    and r: "req = doRequest_req env c verb fullURL request body"
    using doRequest_sentD by blast
  have nb: "(body \<noteq> None) = (request \<noteq> None)"
    using b by (auto simp: prepareBody_def split: option.splits sum.splits)
  {
    assume "\<forall>kv\<in>set (Client.Headers c). CanonicalMIMEHeaderKey (fst kv) \<noteq> ''Accept''"
    then have "\<forall>kv\<in>set (rangeHeaders env (Client.Headers c)). CanonicalMIMEHeaderKey (fst kv) \<noteq> ''Accept''"
      using assms by (simp add: rangeOrder_set)
    then show "Header req ''Accept'' = Some ''application/json''"
      by (simp add: r doRequest_req_def applyHeaders_other Header_Set_def)
  }
  {
    assume "\<forall>kv\<in>set (Client.Headers c). CanonicalMIMEHeaderKey (fst kv) \<noteq> ''Content-Type''"
    then have "\<forall>kv\<in>set (rangeHeaders env (Client.Headers c)). CanonicalMIMEHeaderKey (fst kv) \<noteq> ''Content-Type''"
      using assms by (simp add: rangeOrder_set)
    then show "Header req ''Content-Type'' = (if Request.Body req \<noteq> None then Some ''application/json'' else None)"
      using nb by (simp add: r doRequest_req_def applyHeaders_other Header_Set_def)
  }
next
  assume s: "sent (Send env j verb' request' responseType) = Some req'"
  then obtain requestURL body where r: "req' = Send_req env j verb' requestURL body"
    using Send_sentD by blast
  {
    assume "\<forall>kv\<in>set (JsonServiceClient.Headers j). CanonicalMIMEHeaderKey (fst kv) \<noteq> ''Accept''"
    then have "\<forall>kv\<in>set (rangeHeaders env (JsonServiceClient.Headers j)). CanonicalMIMEHeaderKey (fst kv) \<noteq> ''Accept''"
      using assms by (simp add: rangeOrder_set)
    then show "Header req' ''Accept'' = Some ''application/json''"
      by (simp add: r Send_req_def applyHeaders_other Header_Set_def)
  }
  {
    assume "(\<forall>kv\<in>set (JsonServiceClient.Headers j). CanonicalMIMEHeaderKey (fst kv) \<noteq> ''Content-Type'')
          \<and> Request.Body req' \<noteq> None"
    then have "\<forall>kv\<in>set (rangeHeaders env (JsonServiceClient.Headers j)). CanonicalMIMEHeaderKey (fst kv) \<noteq> ''Content-Type''"
      using assms by (simp add: rangeOrder_set)
    then show "Header req' ''Content-Type'' = Some ''application/json''"
      by (simp add: r Send_req_def applyHeaders_other Header_Set_def)
  }
qed

theorem request_headers_witness:
  "Header (doRequest_req (testServer 200 ''200 OK'' helloResultJSON)
             (SetHeader (NewClient ''http://127.0.0.1'') ''X-Custom-Header'' ''custom-value'')
             ''POST'' ''http://127.0.0.1/hello'' (Some helloWorld) (Some helloWorldJSON)) ''Accept''
     = Some ''application/json''
   \<and> Header (doRequest_req (testServer 200 ''200 OK'' helloResultJSON)
             (SetHeader (NewClient ''http://127.0.0.1'') ''X-Custom-Header'' ''custom-value'')
             ''POST'' ''http://127.0.0.1/hello'' (Some helloWorld) (Some helloWorldJSON)) ''Content-Type''
     = Some ''application/json''
   \<and> Header (Send_req (testServer 200 ''200 OK'' helloResultJSON)
             (SetBearerToken (NewJsonServiceClient ''http://127.0.0.1'') ''abc'')
             ''POST'' ''http://127.0.0.1/json/reply/HelloRequest'' (Some helloWorldJSON)) ''Accept''
     = Some ''application/json''
   \<and> Header (Send_req (testServer 200 ''200 OK'' helloResultJSON)
             (SetBearerToken (NewJsonServiceClient ''http://127.0.0.1'') ''abc'')
             ''POST'' ''http://127.0.0.1/json/reply/HelloRequest'' (Some helloWorldJSON)) ''Content-Type''
     = Some ''application/json''"
proof -
  let ?env = "testServer 200 ''200 OK'' helloResultJSON"
  let ?c = "SetHeader (NewClient ''http://127.0.0.1'') ''X-Custom-Header'' ''custom-value''"
  let ?j = "SetBearerToken (NewJsonServiceClient ''http://127.0.0.1'') ''abc''"
  let ?rt = "Some newHelloResponse"
  let ?req = "doRequest_req ?env ?c ''POST'' ''http://127.0.0.1/hello'' (Some helloWorld) (Some helloWorldJSON)"
  let ?req' = "Send_req ?env ?j ''POST'' ''http://127.0.0.1/json/reply/HelloRequest'' (Some helloWorldJSON)"
  have u: "Client.BaseURL ?c = ''http://127.0.0.1''" "JsonServiceClient.BaseURL ?j = ''http://127.0.0.1''"
    "Client.Headers ?c = [(''X-Custom-Header'', ''custom-value'')]"
    "JsonServiceClient.Headers ?j = [(''Authorization'', ''Bearer abc'')]"
    by (simp_all add: NewClient_def SetHeader_def NewJsonServiceClient_def SetBearerToken_def)
  have r: "rangeOrder (rangeHeaders ?env)" by simp
  have s: "sent (doRequest ?env ?c ''POST'' ''/hello'' (Some helloWorld) ?rt) = Some ?req"
    by (simp add: doRequest_staged prepareBody_def u helloWorld_def)
  have s': "sent (Send ?env ?j ''POST'' (Some helloWorld) ?rt) = Some ?req'"
    by (simp add: Send_staged helloWorld_POST u)
  have b: "Request.Body ?req \<noteq> None" "Request.Body ?req' \<noteq> None"
    by (simp_all add: doRequest_req_def Send_req_def)
  show ?thesis
    using request_headers [OF r, where c = ?c and verb = "''POST''" and path = "''/hello''"
            and request = "Some helloWorld" and response = ?rt and req = ?req
            and j = ?j and verb' = "''POST''" and request' = "Some helloWorld"
            and responseType = ?rt and req' = ?req'] s s' b
    by (simp add: u canonical_fixture_keys)
qed

section \<open>The path of a typed request\<close>

lemma Split_nonempty: "Split s sep \<noteq> []"
  by (induction s) (auto split: list.splits)

lemma Split_no_sep: "sep \<notin> set s \<Longrightarrow> Split s sep = [s]"
  by (induction s) auto

lemma Split_last_part:
  "sep \<notin> set t \<Longrightarrow> length (Split (p @ sep # t) sep) > 1 \<and> last (Split (p @ sep # t) sep) = t"
proof (induction p)
  case Nil
  then show ?case by (simp add: Split_no_sep)
next
  case (Cons c p)
  then have ih: "length (Split (p @ sep # t) sep) > 1" "last (Split (p @ sep # t) sep) = t"
    by simp_all
  show ?case
  proof (cases "c = sep")
    case True
    then show ?thesis using ih Split_nonempty [of "p @ sep # t" sep] by simp
  next
    case False
    obtain q qs where q: "Split (p @ sep # t) sep = q # qs"
      using Split_nonempty [of "p @ sep # t" sep] by (cases "Split (p @ sep # t) sep") auto
    with ih have "qs \<noteq> []" by auto
    with q ih False show ?thesis by simp
  qed
qed

lemma identifier_bytes:
  assumes "isIdentifier s"
  shows "CHR ''.'' \<notin> set s" and "take 1 s \<noteq> ''*''"
proof -
  have a: "\<forall>c\<in>set s. isAlnum c \<or> c = CHR ''_'' \<or> (of_char c :: nat) \<ge> 0x80"
    using assms by (simp add: isIdentifier_def list_all_iff)
  have d: "\<not> (isAlnum (CHR ''.'') \<or> CHR ''.'' = CHR ''_'' \<or> (of_char (CHR ''.'') :: nat) \<ge> 0x80)"
    by (simp add: isAlnum_def isDigit_def)
  have st: "\<not> (isAlnum (CHR ''*'') \<or> CHR ''*'' = CHR ''_'' \<or> (of_char (CHR ''*'') :: nat) \<ge> 0x80)"
    by (simp add: isAlnum_def isDigit_def)
  show "CHR ''.'' \<notin> set s" using a d by blast
  have "s \<noteq> []" using assms by (simp add: isIdentifier_def)
  then obtain c cs where s: "s = c # cs" by (cases s) auto
  then have "c \<noteq> CHR ''*''" using a st by auto
  then show "take 1 s \<noteq> ''*''" by (simp add: s)
qed

lemma getRequestPath_named:
  assumes "isIdentifier Foo" and "typeString r = replicate k (CHR ''*'') @ pkg @ ''.'' @ Foo"
  shows "getRequestPath j (Some r) = ''/json/reply/'' @ Foo"
proof -
  have t: "typeString r = (replicate k (CHR ''*'') @ pkg) @ CHR ''.'' # Foo"
    using assms(2) by simp
  have "length (Split (typeString r) (CHR ''.'')) > 1 \<and> last (Split (typeString r) (CHR ''.'')) = Foo"
    unfolding t by (rule Split_last_part) (rule identifier_bytes(1) [OF assms(1)])
  moreover have "TrimPrefix Foo ''*'' = Foo"
    using identifier_bytes(2) [OF assms(1)] by (simp add: TrimPrefix_def)
  ultimately show ?thesis
    by (simp add: getRequestPath_def Sprintf_T_def Let_def)
qed

lemma getRequestPath_unqualified:
  assumes "isIdentifier Foo" and "typeString r = Foo \<or> typeString r = ''*'' @ Foo"
  shows "getRequestPath j (Some r) = ''/json/reply/'' @ Foo"
proof -
  have d: "CHR ''.'' \<notin> set Foo" and t: "TrimPrefix Foo ''*'' = Foo"
    using identifier_bytes [OF assms(1)] by (simp_all add: TrimPrefix_def)
  from assms(2) show ?thesis
  proof
    assume "typeString r = Foo"
    then show ?thesis using d t by (simp add: getRequestPath_def Sprintf_T_def Split_no_sep)
  next
    assume "typeString r = ''*'' @ Foo"
    then show ?thesis using d by (simp add: getRequestPath_def Sprintf_T_def Split_no_sep TrimPrefix_def)
  qed
qed

lemma Send_encode_URL:
  assumes "Send_encode env j verb request = Inr (requestURL, body)"
  shows "take (length (JsonServiceClient.BaseURL j @ getRequestPath j request)) requestURL
           = JsonServiceClient.BaseURL j @ getRequestPath j request"
  using assms by (auto simp: Send_encode_def Let_def split: if_splits sum.splits)

text \<open>
  C2. For a request whose type is declared with the name Foo, in any package and behind
  any number of pointer markers (or printed without a package, behind at most one),
  the derived path is exactly /json/reply/Foo; the path
  depends on the type of the value only, so two values of the same type have the same
  path; and for every HTTP method the URL that Send requests is the base URL followed by
  that path (and, for GET and DELETE, by the query string).
\<close>

theorem request_path_from_type:
  "(isIdentifier Foo \<and> typeString r = replicate k (CHR ''*'') @ pkg @ ''.'' @ Foo
      \<longrightarrow> getRequestPath j (Some r) = ''/json/reply/'' @ Foo)
   \<and> (isIdentifier Foo \<and> (typeString r = Foo \<or> typeString r = ''*'' @ Foo)
      \<longrightarrow> getRequestPath j (Some r) = ''/json/reply/'' @ Foo)
   \<and> (typeString r1 = typeString r2 \<longrightarrow> getRequestPath j (Some r1) = getRequestPath j' (Some r2))
   \<and> (sent (Send env j verb (Some r) responseType) = Some req
      \<longrightarrow> take (length (JsonServiceClient.BaseURL j @ getRequestPath j (Some r))) (URL req)
            = JsonServiceClient.BaseURL j @ getRequestPath j (Some r))"
proof (intro conjI impI)
  assume "isIdentifier Foo \<and> typeString r = replicate k (CHR ''*'') @ pkg @ ''.'' @ Foo"
  then show "getRequestPath j (Some r) = ''/json/reply/'' @ Foo"
    using getRequestPath_named by blast
next
  assume "isIdentifier Foo \<and> (typeString r = Foo \<or> typeString r = ''*'' @ Foo)"
  then show "getRequestPath j (Some r) = ''/json/reply/'' @ Foo"
    using getRequestPath_unqualified by blast
next
  assume "typeString r1 = typeString r2"
  then show "getRequestPath j (Some r1) = getRequestPath j' (Some r2)"
    by (simp add: getRequestPath_def Sprintf_T_def)
next
  assume "sent (Send env j verb (Some r) responseType) = Some req"
  then obtain requestURL body where e: "Send_encode env j verb (Some r) = Inr (requestURL, body)"
    and r: "req = Send_req env j verb requestURL body"
    using Send_sentD by blast
  show "take (length (JsonServiceClient.BaseURL j @ getRequestPath j (Some r))) (URL req)
            = JsonServiceClient.BaseURL j @ getRequestPath j (Some r)"
    using Send_encode_URL [OF e] by (simp add: r Send_req_def)
qed

theorem request_path_from_type_witness:
  "getRequestPath (NewJsonServiceClient ''https://test.servicestack.net'') (Some helloWorld)
     = ''/json/reply/HelloRequest''
   \<and> getRequestPath (NewJsonServiceClient ''https://test.servicestack.net'') (Some helloWorld)
     = getRequestPath (NewJsonServiceClient ''http://127.0.0.1'')
         (Some (helloWorld\<lparr>jsonMarshal := Inr ''{}''\<rparr>))
   \<and> take (length ''https://test.servicestack.net/json/reply/HelloRequest'')
        (URL (Send_req (testServer 200 ''200 OK'' helloResultJSON)
                (NewJsonServiceClient ''https://test.servicestack.net'') ''GET''
                ''https://test.servicestack.net/json/reply/HelloRequest?name=World'' None))
     = ''https://test.servicestack.net/json/reply/HelloRequest''"
proof -
  let ?env = "testServer 200 ''200 OK'' helloResultJSON"
  let ?j = "NewJsonServiceClient ''https://test.servicestack.net''"
  let ?j' = "NewJsonServiceClient ''http://127.0.0.1''"
  let ?req = "Send_req ?env ?j ''GET'' ''https://test.servicestack.net/json/reply/HelloRequest?name=World'' None"
  have u: "JsonServiceClient.BaseURL ?j = ''https://test.servicestack.net''"
    by (simp add: NewJsonServiceClient_def)
  have i: "isIdentifier ''HelloRequest''"
    by (simp add: isIdentifier_def isDigit_def isAlnum_def)
  have t: "typeString helloWorld = replicate 1 (CHR ''*'') @ ''servicestack'' @ ''.'' @ ''HelloRequest''"
    by (simp add: helloWorld_def)
  have t2: "typeString helloWorld = typeString (helloWorld\<lparr>jsonMarshal := Inr ''{}''\<rparr>)"
    by simp
  have s: "sent (Send ?env ?j ''GET'' (Some helloWorld) (Some newHelloResponse)) = Some ?req"
    by (simp add: Send_staged helloWorld_GET u)
  note T = request_path_from_type [where Foo = "''HelloRequest''" and r = helloWorld and k = 1
      and pkg = "''servicestack''" and j = ?j and j' = ?j' and ?r1.0 = helloWorld
      and ?r2.0 = "helloWorld\<lparr>jsonMarshal := Inr ''{}''\<rparr>" and env = ?env and verb = "''GET''"
      and responseType = "Some newHelloResponse" and req = ?req]
  have p: "getRequestPath ?j (Some helloWorld) = ''/json/reply/HelloRequest''"
    using T i t by simp
  have q: "getRequestPath ?j (Some helloWorld) = getRequestPath ?j' (Some (helloWorld\<lparr>jsonMarshal := Inr ''{}''\<rparr>))"
    using T t2 by blast
  have "take (length (JsonServiceClient.BaseURL ?j @ getRequestPath ?j (Some helloWorld))) (URL ?req)
            = JsonServiceClient.BaseURL ?j @ getRequestPath ?j (Some helloWorld)"
    using T s by blast
  then have w: "take (length ''https://test.servicestack.net/json/reply/HelloRequest'') (URL ?req)
     = ''https://test.servicestack.net/json/reply/HelloRequest''"
    by (simp only: p u append.simps)
  show ?thesis using p q w by blast
qed

section \<open>The query string\<close>

lemma update_fresh: "k \<notin> fst ` set al \<Longrightarrow> AList.update k v al = al @ [(k, v)]"
  by (induction al) auto

lemma Add_fresh: "k \<notin> fst ` set v \<Longrightarrow> Add k x v = v @ [(k, [x])]"
  by (simp add: Add_def Get_values_def update_fresh map_of_eq_None_iff [THEN iffD2])

lemma mapOf_distinct_aux:
  "distinct (map fst m) \<Longrightarrow> distinct (map fst (foldl (\<lambda>m kv. AList.update (fst kv) (snd kv) m) m ms))"
  by (induction ms arbitrary: m) (simp_all add: distinct_update)

lemma mapOf_distinct: "distinct (map fst (mapOf ms))"
  by (simp add: mapOf_def mapOf_distinct_aux)

lemma Unmarshal_map_distinct:
  assumes "Unmarshal_map ff jsonData = Inr data"
  shows "distinct (map fst data)"
  using assms
  by (auto simp: Unmarshal_map_def mapOf_distinct split: option.splits json.splits any.splits)

lemma fold_addParam:
  "distinct (map fst xs) \<Longrightarrow> fst ` set xs \<inter> fst ` set acc = {} \<Longrightarrow>
   fold addParam xs acc
     = acc @ map (\<lambda>kv. (fst kv, [Sprint (snd kv)])) (filter (\<lambda>kv. snd kv \<noteq> Nil) xs)"
proof (induction xs arbitrary: acc)
  case Nil
  then show ?case by simp
next
  case (Cons x xs)
  show ?case
  proof (cases "snd x = Nil")
    case True
    then show ?thesis using Cons by (simp add: addParam_def)
  next
    case False
    have f: "fst x \<notin> fst ` set acc" using Cons.prems(2) by auto
    have "fst ` set xs \<inter> fst ` set (acc @ [(fst x, [Sprint (snd x)])]) = {}"
      using Cons.prems by auto
    then have "fold addParam xs (acc @ [(fst x, [Sprint (snd x)])])
        = (acc @ [(fst x, [Sprint (snd x)])])
            @ map (\<lambda>kv. (fst kv, [Sprint (snd kv)])) (filter (\<lambda>kv. snd kv \<noteq> Nil) xs)"
      using Cons.IH Cons.prems(1) by simp
    moreover have "addParam x acc = acc @ [(fst x, [Sprint (snd x)])]"
      using False f by (simp add: addParam_def Add_fresh)
    ultimately show ?thesis using False by simp
  qed
qed

lemma concat_map_singletons: "\<forall>x\<in>set xs. F x = [G x] \<Longrightarrow> concat (map F xs) = map G xs"
  by (induction xs) simp_all

lemma sort_keys: "sort (map fst ps) = map fst (sort_key fst ps)"
  by (rule properties_for_sort) simp_all

lemma Encode_singletons:
  assumes "distinct (map fst ps)"
  shows "Encode (map (\<lambda>kx. (fst kx, [snd kx])) ps) = joinWith ''&'' (map queryPair (sort_key fst ps))"
proof -
  let ?v = "map (\<lambda>kx. (fst kx, [snd kx])) ps"
  have k: "map fst ?v = map fst ps" by (simp add: comp_def)
  have g: "Get_values ?v (fst kx) = [snd kx]" if "kx \<in> set ps" for kx
  proof -
    have "distinct (map fst ?v)" unfolding k using assms .
    moreover have "(fst kx, [snd kx]) \<in> set ?v" using that by auto
    ultimately have "map_of ?v (fst kx) = Some [snd kx]" by (rule map_of_is_SomeI)
    then show ?thesis by (simp add: Get_values_def)
  qed
  have c: "concat (map (\<lambda>k. map (\<lambda>x. QueryEscape k @ ''='' @ QueryEscape x) (Get_values ?v k))
                    (map fst (sort_key fst ps)))
        = map queryPair (sort_key fst ps)"
    unfolding map_map
    by (rule concat_map_singletons) (simp add: g queryPair_def)
  show ?thesis unfolding Encode_def k sort_keys c by (rule refl)
qed

lemma insort_key_relabel:
  "insort_key fst (fst x, g x) (map (\<lambda>kv. (fst kv, g kv)) ys)
     = map (\<lambda>kv. (fst kv, g kv)) (insort_key fst x ys)"
  by (induction ys) simp_all

lemma sort_key_relabel:
  "sort_key fst (map (\<lambda>kv. (fst kv, g kv)) xs) = map (\<lambda>kv. (fst kv, g kv)) (sort_key fst xs)"
  by (induction xs) (simp_all add: insort_key_relabel)

lemma sort_key_filter_perm:
  assumes "mset xs = mset ys" and "distinct (map fst xs)"
  shows "sort_key fst (filter P xs) = sort_key fst (filter P ys)"
proof (rule sort_key_inj_key_eq)
  show "mset (filter P xs) = mset (sort_key fst (filter P ys))"
    using assms(1) by simp
  have "inj_on fst (set xs)" using assms(2) by (simp add: distinct_map)
  then show "inj_on fst (set (filter P xs))" by (rule inj_on_subset) auto
  show "sorted (map fst (sort_key fst (filter P ys)))" by simp
qed

lemma queryParams_keys:
  "distinct (map fst data) \<Longrightarrow> sorted (map fst (queryParams data)) \<and> distinct (map fst (queryParams data))"
proof -
  assume d: "distinct (map fst data)"
  have m: "map fst (queryParams data) = map fst (sort_key fst (filter (\<lambda>kv. snd kv \<noteq> Nil) data))"
    by (simp add: queryParams_def comp_def)
  have "distinct (map fst (filter (\<lambda>kv. snd kv \<noteq> Nil) data))"
    using d by (rule distinct_map_filter)
  then have "distinct (map fst (sort_key fst (filter (\<lambda>kv. snd kv \<noteq> Nil) data)))"
    by (metis mset_eq_imp_distinct_iff mset_map mset_sort)
  then show ?thesis by (simp add: m)
qed

lemma toQueryString_canonical:
  assumes r: "rangeOrder (rangeData env)"
    and m: "json_Marshal v = Inr jsonData"
    and u: "Unmarshal_map (formatFloat env) jsonData = Inr data"
  shows "toQueryString env v = Inr (canonicalQuery data)"
proof -
  let ?xs = "rangeData env data"
  let ?P = "\<lambda>kv. snd kv \<noteq> Nil"
  have p: "mset ?xs = mset data" using r by (simp add: rangeOrder_def)
  have d: "distinct (map fst data)" using u by (rule Unmarshal_map_distinct)
  have dx: "distinct (map fst ?xs)"
    using d p by (metis mset_eq_imp_distinct_iff mset_map)
  have f: "fold addParam ?xs [] = map (\<lambda>kv. (fst kv, [Sprint (snd kv)])) (filter ?P ?xs)"
    using fold_addParam [OF dx, of "[]"] by simp
  have s: "sort_key fst (filter ?P ?xs) = sort_key fst (filter ?P data)"
    using p dx by (rule sort_key_filter_perm)
  let ?ps = "map (\<lambda>kv. (fst kv, Sprint (snd kv))) (filter ?P ?xs)"
  have e: "map (\<lambda>kv. (fst kv, [Sprint (snd kv)])) (filter ?P ?xs) = map (\<lambda>kx. (fst kx, [snd kx])) ?ps"
    by (simp add: comp_def)
  have dp: "distinct (map fst ?ps)"
    using distinct_map_filter [OF dx, of ?P] by (simp add: comp_def)
  have sk: "sort_key fst ?ps = map (\<lambda>kv. (fst kv, Sprint (snd kv))) (sort_key fst (filter ?P ?xs))"
    by (rule sort_key_relabel)
  have "Encode (fold addParam ?xs []) = joinWith ''&'' (map queryPair (sort_key fst ?ps))"
    unfolding f e using dp by (rule Encode_singletons)
  also have "\<dots> = canonicalQuery data"
    by (simp add: sk s canonicalQuery_def queryParams_def)
  finally have "Encode (fold addParam ?xs []) = canonicalQuery data" .
  moreover have "toQueryString env v = Inr (Encode (fold addParam ?xs []))"
    using m u by (simp add: toQueryString_def addParam_def [abs_def] Let_def)
  ultimately show ?thesis by simp
qed

lemma rangeOrder_rev: "rangeOrder rev"
  by (simp add: rangeOrder_def)

text \<open>
  C10. toQueryString is deterministic: whatever order the runtime iterates over the
  decoded map in, two calls on the same value give the same result; and a query string it
  returns is the escaped key=value pairs joined by &, in strictly ascending byte-wise
  order of their keys.
\<close>

theorem toQueryString_deterministic:
  "(rangeOrder (rangeData env1) \<and> rangeOrder (rangeData env2) \<and> formatFloat env1 = formatFloat env2
      \<longrightarrow> toQueryString env1 v = toQueryString env2 v)
   \<and> (rangeOrder (rangeData env) \<and> toQueryString env v = Inr q
      \<longrightarrow> (\<exists>ps. q = joinWith ''&'' (map queryPair ps) \<and> sorted (map fst ps) \<and> distinct (map fst ps)))"
proof (intro conjI impI)
  assume a: "rangeOrder (rangeData env1) \<and> rangeOrder (rangeData env2) \<and> formatFloat env1 = formatFloat env2"
  show "toQueryString env1 v = toQueryString env2 v"
  proof (cases "json_Marshal v")
    case (Inl e)
    then show ?thesis by (simp add: toQueryString_def)
  next
    case m: (Inr jsonData)
    show ?thesis
    proof (cases "Unmarshal_map (formatFloat env1) jsonData")
      case (Inl e)
      then show ?thesis using a m by (simp add: toQueryString_def)
    next
      case u: (Inr data)
      then have u2: "Unmarshal_map (formatFloat env2) jsonData = Inr data" using a by simp
      show ?thesis
        using a toQueryString_canonical [OF _ m u] toQueryString_canonical [OF _ m u2] by simp
    qed
  qed
next
  assume a: "rangeOrder (rangeData env) \<and> toQueryString env v = Inr q"
  then obtain jsonData data where m: "json_Marshal v = Inr jsonData"
    and u: "Unmarshal_map (formatFloat env) jsonData = Inr data"
    by (auto simp: toQueryString_def split: sum.splits)
  have "q = canonicalQuery data"
    using a toQueryString_canonical [OF _ m u] by simp
  then have "q = joinWith ''&'' (map queryPair (queryParams data))"
    by (simp add: canonicalQuery_def)
  moreover have "sorted (map fst (queryParams data)) \<and> distinct (map fst (queryParams data))"
    using Unmarshal_map_distinct [OF u] by (rule queryParams_keys)
  ultimately show "\<exists>ps. q = joinWith ''&'' (map queryPair ps) \<and> sorted (map fst ps) \<and> distinct (map fst ps)"
    by blast
qed

lemma testRequest_map:
  "Unmarshal_map Some testRequestJSON = Inr [(''name'', String ''test''), (''value'', Float64 ''42'')]"
  by code_simp

lemma testRequest_canonical:
  "canonicalQuery [(''name'', String ''test''), (''value'', Float64 ''42'')] = ''name=test&value=42''"
  by code_simp

theorem toQueryString_deterministic_witness:
  "toQueryString (testServer 200 ''200 OK'' []) (Some testRequest)
     = toQueryString ((testServer 200 ''200 OK'' [])\<lparr>rangeData := rev\<rparr>) (Some testRequest)
   \<and> toQueryString ((testServer 200 ''200 OK'' [])\<lparr>rangeData := rev\<rparr>) (Some testRequest)
     = Inr ''name=test&value=42''
   \<and> (\<exists>ps. ''name=test&value=42'' = joinWith ''&'' (map queryPair ps)
          \<and> sorted (map fst ps) \<and> distinct (map fst ps))"
proof -
  let ?e1 = "testServer 200 ''200 OK'' []"
  let ?e2 = "(testServer 200 ''200 OK'' [])\<lparr>rangeData := rev\<rparr>"
  have r: "rangeOrder (rangeData ?e1)" "rangeOrder (rangeData ?e2)" "formatFloat ?e1 = formatFloat ?e2"
    by (simp_all add: rangeOrder_rev)
  have m: "json_Marshal (Some testRequest) = Inr testRequestJSON"
    by (simp add: json_Marshal_def testRequest_def)
  have u: "Unmarshal_map (formatFloat ?e2) testRequestJSON
             = Inr [(''name'', String ''test''), (''value'', Float64 ''42'')]"
    by (simp add: testRequest_map)
  have q: "toQueryString ?e2 (Some testRequest) = Inr ''name=test&value=42''"
    using toQueryString_canonical [OF r(2) m u] by (simp add: testRequest_canonical)
  note T = toQueryString_deterministic [where ?env1.0 = ?e1 and ?env2.0 = ?e2 and v = "Some testRequest"
      and env = ?e2 and q = "''name=test&value=42''"]
  have 1: "toQueryString ?e1 (Some testRequest) = toQueryString ?e2 (Some testRequest)"
    using T r by blast
  have 2: "\<exists>ps. ''name=test&value=42'' = joinWith ''&'' (map queryPair ps)
          \<and> sorted (map fst ps) \<and> distinct (map fst ps)"
    using T r(2) q by blast
  show ?thesis using 1 2 q by blast
qed

section \<open>Encoding by verb\<close>

text \<open>
  C3. For GET and DELETE, Send sends no body and appends to the URL the query string of
  the request (after a ?, when it is not empty); the query string comes from the JSON of
  the request decoded into a flat map, with the keys whose value is null left out. For
  every other method Send sends the JSON of the request as the body and appends nothing
  to the URL.
\<close>

theorem Send_encoding:
  "((verb = ''GET'' \<or> verb = ''DELETE'') \<and> sent (Send env j verb request responseType) = Some req
      \<longrightarrow> Request.Body req = None
        \<and> (\<exists>params. toQueryString env request = Inr params
              \<and> URL req = JsonServiceClient.BaseURL j @ getRequestPath j request
                           @ (if params \<noteq> [] then ''?'' @ params else [])))
   \<and> (verb \<noteq> ''GET'' \<and> verb \<noteq> ''DELETE'' \<and> sent (Send env j verb request responseType) = Some req
      \<longrightarrow> (\<exists>jsonData. json_Marshal request = Inr jsonData \<and> Request.Body req = Some jsonData)
        \<and> URL req = JsonServiceClient.BaseURL j @ getRequestPath j request)
   \<and> (rangeOrder (rangeData env) \<and> json_Marshal request = Inr jsonData
        \<and> Unmarshal_map (formatFloat env) jsonData = Inr data
      \<longrightarrow> toQueryString env request = Inr (canonicalQuery data)
        \<and> fst ` set (queryParams data) = {k. \<exists>x. (k, x) \<in> set data \<and> x \<noteq> Nil})"
proof (intro conjI impI)
  assume a: "(verb = ''GET'' \<or> verb = ''DELETE'') \<and> sent (Send env j verb request responseType) = Some req"
  then obtain requestURL body where e: "Send_encode env j verb request = Inr (requestURL, body)"
    and r: "req = Send_req env j verb requestURL body"
    using Send_sentD by blast
  from a e obtain params where p: "toQueryString env request = Inr params"
    and b: "body = None"
    and u: "requestURL = JsonServiceClient.BaseURL j @ getRequestPath j request
                           @ (if params \<noteq> [] then ''?'' @ params else [])"
    by (auto simp: Send_encode_def Let_def split: sum.splits if_splits)
  show "Request.Body req = None" by (simp add: r b Send_req_def)
  show "\<exists>params. toQueryString env request = Inr params
              \<and> URL req = JsonServiceClient.BaseURL j @ getRequestPath j request
                           @ (if params \<noteq> [] then ''?'' @ params else [])"
    using p u by (simp add: r Send_req_def)
next
  assume a: "verb \<noteq> ''GET'' \<and> verb \<noteq> ''DELETE'' \<and> sent (Send env j verb request responseType) = Some req"
  then obtain requestURL body where e: "Send_encode env j verb request = Inr (requestURL, body)"
    and r: "req = Send_req env j verb requestURL body"
    using Send_sentD by blast
  from a e obtain jsonData where m: "json_Marshal request = Inr jsonData"
    and b: "body = Some jsonData"
    and u: "requestURL = JsonServiceClient.BaseURL j @ getRequestPath j request"
    by (auto simp: Send_encode_def Let_def split: sum.splits)
  show "\<exists>jsonData. json_Marshal request = Inr jsonData \<and> Request.Body req = Some jsonData"
    using m b by (simp add: r Send_req_def)
  show "URL req = JsonServiceClient.BaseURL j @ getRequestPath j request"
    using u by (simp add: r Send_req_def)
next
  assume a: "rangeOrder (rangeData env) \<and> json_Marshal request = Inr jsonData
        \<and> Unmarshal_map (formatFloat env) jsonData = Inr data"
  then show "toQueryString env request = Inr (canonicalQuery data)"
    using toQueryString_canonical by blast
  show "fst ` set (queryParams data) = {k. \<exists>x. (k, x) \<in> set data \<and> x \<noteq> Nil}"
    by (force simp: queryParams_def)
qed

lemma helloNil_map:
  "Unmarshal_map Some helloNilJSON = Inr [(''name'', String ''World''), (''tag'', Nil)]"
  by code_simp

lemma helloNil_canonical:
  "canonicalQuery [(''name'', String ''World''), (''tag'', Nil)] = ''name=World''"
  by code_simp

theorem Send_encoding_witness:
  "sent (Send (testServer 200 ''200 OK'' helloResultJSON) (NewJsonServiceClient ''http://127.0.0.1'')
          ''GET'' (Some helloWorld) (Some newHelloResponse))
     = Some (Send_req (testServer 200 ''200 OK'' helloResultJSON) (NewJsonServiceClient ''http://127.0.0.1'')
               ''GET'' ''http://127.0.0.1/json/reply/HelloRequest?name=World'' None)
   \<and> Request.Body (Send_req (testServer 200 ''200 OK'' helloResultJSON)
                     (NewJsonServiceClient ''http://127.0.0.1'')
                     ''GET'' ''http://127.0.0.1/json/reply/HelloRequest?name=World'' None) = None
   \<and> toQueryString (testServer 200 ''200 OK'' helloResultJSON) (Some helloWorld) = Inr ''name=World''
   \<and> sent (Send (testServer 200 ''200 OK'' helloResultJSON) (NewJsonServiceClient ''http://127.0.0.1'')
          ''POST'' (Some helloWorld) (Some newHelloResponse))
     = Some (Send_req (testServer 200 ''200 OK'' helloResultJSON) (NewJsonServiceClient ''http://127.0.0.1'')
               ''POST'' ''http://127.0.0.1/json/reply/HelloRequest'' (Some helloWorldJSON))
   \<and> (\<exists>jsonData. json_Marshal (Some helloWorld) = Inr jsonData
          \<and> Request.Body (Send_req (testServer 200 ''200 OK'' helloResultJSON)
                     (NewJsonServiceClient ''http://127.0.0.1'')
                     ''POST'' ''http://127.0.0.1/json/reply/HelloRequest'' (Some helloWorldJSON))
              = Some jsonData)
   \<and> toQueryString (testServer 200 ''200 OK'' helloResultJSON) (Some helloNil) = Inr ''name=World''"
proof -
  let ?env = "testServer 200 ''200 OK'' helloResultJSON"
  let ?j = "NewJsonServiceClient ''http://127.0.0.1''"
  let ?rt = "Some newHelloResponse"
  let ?g = "Send_req ?env ?j ''GET'' ''http://127.0.0.1/json/reply/HelloRequest?name=World'' None"
  let ?p = "Send_req ?env ?j ''POST'' ''http://127.0.0.1/json/reply/HelloRequest'' (Some helloWorldJSON)"
  have u: "JsonServiceClient.BaseURL ?j = ''http://127.0.0.1''"
    by (simp add: NewJsonServiceClient_def)
  have sg: "sent (Send ?env ?j ''GET'' (Some helloWorld) ?rt) = Some ?g"
    by (simp add: Send_staged helloWorld_GET u)
  have sp: "sent (Send ?env ?j ''POST'' (Some helloWorld) ?rt) = Some ?p"
    by (simp add: Send_staged helloWorld_POST u)
  have r: "rangeOrder (rangeData ?env)" by simp
  have m: "json_Marshal (Some helloNil) = Inr helloNilJSON"
    by (simp add: json_Marshal_def helloNil_def)
  have d: "Unmarshal_map (formatFloat ?env) helloNilJSON = Inr [(''name'', String ''World''), (''tag'', Nil)]"
    by (simp add: helloNil_map)
  note G = Send_encoding [where verb = "''GET''" and env = ?env and j = ?j and request = "Some helloWorld"
      and responseType = ?rt and req = ?g]
  note P = Send_encoding [where verb = "''POST''" and env = ?env and j = ?j and request = "Some helloWorld"
      and responseType = ?rt and req = ?p]
  note N = Send_encoding [where env = ?env and request = "Some helloNil" and jsonData = helloNilJSON
      and data = "[(''name'', String ''World''), (''tag'', Nil)]" and verb = "''GET''" and j = ?j
      and responseType = ?rt and req = ?g, THEN conjunct2, THEN conjunct2]
  have 1: "Request.Body ?g = None" using G sg by blast
  have 2: "\<exists>jsonData. json_Marshal (Some helloWorld) = Inr jsonData \<and> Request.Body ?p = Some jsonData"
    using P sp by simp
  have 3: "toQueryString ?env (Some helloNil) = Inr ''name=World''"
    using N r m d by (simp add: helloNil_canonical)
  show ?thesis using 1 2 3 sg sp helloWorld_query by blast
qed

section \<open>The error envelope\<close>

lemma notFound_json: "parseJSON notFoundJSON = Some (JObject [(''error'', JString ''Not Found'')])"
  by code_simp

lemma notFound_envelope: "Unmarshal_errorResponse notFoundJSON = Inr zeroResponseStatus"
  by code_simp

lemma validationError_envelope:
  "Unmarshal_errorResponse validationErrorJSON
     = Inr \<lparr>ResponseStatus.ErrorCode = ''ValidationError'', Message = ''Name is required'',
            StackTrace = [],
            Errors = [\<lparr>ResponseError.ErrorCode = ''NotEmpty'', FieldName = ''Name'',
                       Message = ''Name cannot be empty'', Meta = []\<rparr>],
            Meta = []\<rparr>"
  by code_simp

lemma serverError_not_json: "parseJSON ''Server error'' = None"
  by code_simp

text \<open>
  C4 as stated fails for a body that is JSON but has no responseStatus member: decoding
  it reports no error, and the exception's envelope is the zero value, with an empty
  message, not the raw body.
\<close>

theorem parseError_not_envelope_counterexample:
  "parseJSON notFoundJSON = Some (JObject [(''error'', JString ''Not Found'')])
   \<and> err (Send (testServer 404 ''404 Not Found'' notFoundJSON) (NewJsonServiceClient ''http://127.0.0.1'')
            ''POST'' (Some helloWorld) (Some newHelloResponse))
       = Some (ServiceError \<lparr>WebServiceException.StatusCode = 404, StatusDescription = ''404 Not Found'',
                             ResponseStatus = zeroResponseStatus\<rparr>)
   \<and> ResponseStatus.Message zeroResponseStatus = []
   \<and> notFoundJSON \<noteq> []"
  by (simp add: notFound_json Send_staged helloWorld_POST Send_exchange_def Send_response_def
        parseError_def notFound_envelope zeroResponseStatus_def)
     (simp add: notFoundJSON_def)

lemma decodeFields_no_member:
  "\<forall>kv\<in>set ms. foldName (fst kv) \<noteq> ''responsestatus'' \<Longrightarrow>
   decodeFields setErrorResponseField ms rs = Some rs"
  by (induction ms) (simp_all add: setErrorResponseField_def)

text \<open>
  C4, amended. On a status of 400 or more Send returns the WebServiceException that
  parseError builds and no value; that exception always carries the status code and the
  status text, and the decoder's own error is never what is returned. When decoding the
  body into the responseStatus wrapper reports an error, which it does when the body is
  not JSON or is JSON other than an object or null, the envelope has only its message
  set, to the raw body. When the body is a JSON object without a responseStatus member,
  decoding reports no error and the envelope is the zero value, its message empty.
\<close>

theorem parseError_envelope:
  "(Unmarshal_errorResponse body = Inl e
      \<longrightarrow> parseError j code status body
            = ServiceError \<lparr>WebServiceException.StatusCode = code, StatusDescription = status,
                            ResponseStatus = zeroResponseStatus\<lparr>ResponseStatus.Message := body\<rparr>\<rparr>)
   \<and> (parseJSON body = None \<or> (\<exists>v. parseJSON body = Some v \<and> v \<noteq> JNull \<and> (\<forall>ms. v \<noteq> JObject ms))
      \<longrightarrow> (\<exists>e. Unmarshal_errorResponse body = Inl e))
   \<and> (parseJSON body = Some (JObject ms) \<and> (\<forall>kv\<in>set ms. foldName (fst kv) \<noteq> ''responsestatus'')
      \<longrightarrow> parseError j code status body
            = ServiceError \<lparr>WebServiceException.StatusCode = code, StatusDescription = status,
                            ResponseStatus = zeroResponseStatus\<rparr>)
   \<and> (\<exists>w. parseError j code status body = ServiceError w
          \<and> WebServiceException.StatusCode w = code \<and> StatusDescription w = status)
   \<and> (sent (Send env j verb request responseType) = Some req
        \<and> Do env (httpClient j) req = Inr resp \<and> Response.Body resp = Inr body
        \<and> 400 \<le> Response.StatusCode resp
      \<longrightarrow> err (Send env j verb request responseType)
            = Some (parseError j (Response.StatusCode resp) (Status resp) body)
        \<and> out (Send env j verb request responseType) = None)"
proof (intro conjI impI)
  assume "Unmarshal_errorResponse body = Inl e"
  then show "parseError j code status body
            = ServiceError \<lparr>WebServiceException.StatusCode = code, StatusDescription = status,
                            ResponseStatus = zeroResponseStatus\<lparr>ResponseStatus.Message := body\<rparr>\<rparr>"
    by (simp add: parseError_def)
next
  assume "parseJSON body = None \<or> (\<exists>v. parseJSON body = Some v \<and> v \<noteq> JNull \<and> (\<forall>ms. v \<noteq> JObject ms))"
  then show "\<exists>e. Unmarshal_errorResponse body = Inl e"
    by (auto simp: Unmarshal_errorResponse_def split: json.splits)
next
  assume "parseJSON body = Some (JObject ms) \<and> (\<forall>kv\<in>set ms. foldName (fst kv) \<noteq> ''responsestatus'')"
  then show "parseError j code status body
            = ServiceError \<lparr>WebServiceException.StatusCode = code, StatusDescription = status,
                            ResponseStatus = zeroResponseStatus\<rparr>"
    by (simp add: parseError_def Unmarshal_errorResponse_def decodeFields_no_member)
next
  show "\<exists>w. parseError j code status body = ServiceError w
          \<and> WebServiceException.StatusCode w = code \<and> StatusDescription w = status"
    by (rule parseError_ServiceError)
next
  assume a: "sent (Send env j verb request responseType) = Some req
        \<and> Do env (httpClient j) req = Inr resp \<and> Response.Body resp = Inr body
        \<and> 400 \<le> Response.StatusCode resp"
  then have e: "Send env j verb request responseType = Send_exchange env j responseType req"
    using Send_sentD by blast
  show "err (Send env j verb request responseType)
            = Some (parseError j (Response.StatusCode resp) (Status resp) body)"
    using a by (simp add: e Send_exchange_def Send_response_def)
  show "out (Send env j verb request responseType) = None"
    using a by (simp add: e Send_exchange_def Send_response_def)
qed

theorem parseError_envelope_witness:
  "err (Send (testServer 500 ''500 Internal Server Error'' ''Server error'')
          (NewJsonServiceClient ''http://127.0.0.1'') ''POST'' (Some helloWorld) (Some newHelloResponse))
     = Some (ServiceError \<lparr>WebServiceException.StatusCode = 500,
                           StatusDescription = ''500 Internal Server Error'',
                           ResponseStatus = zeroResponseStatus\<lparr>ResponseStatus.Message := ''Server error''\<rparr>\<rparr>)
   \<and> out (Send (testServer 500 ''500 Internal Server Error'' ''Server error'')
          (NewJsonServiceClient ''http://127.0.0.1'') ''POST'' (Some helloWorld) (Some newHelloResponse))
     = None
   \<and> parseError (NewJsonServiceClient ''http://127.0.0.1'') 404 ''404 Not Found'' notFoundJSON
     = ServiceError \<lparr>WebServiceException.StatusCode = 404, StatusDescription = ''404 Not Found'',
                     ResponseStatus = zeroResponseStatus\<rparr>"
proof -
  let ?env = "testServer 500 ''500 Internal Server Error'' ''Server error''"
  let ?j = "NewJsonServiceClient ''http://127.0.0.1''"
  let ?rt = "Some newHelloResponse"
  let ?req = "Send_req ?env ?j ''POST'' ''http://127.0.0.1/json/reply/HelloRequest'' (Some helloWorldJSON)"
  let ?resp = "\<lparr>StatusCode = 500, Status = ''500 Internal Server Error'', Body = Inr ''Server error''\<rparr>"
  have u: "JsonServiceClient.BaseURL ?j = ''http://127.0.0.1''"
    by (simp add: NewJsonServiceClient_def)
  have s: "sent (Send ?env ?j ''POST'' (Some helloWorld) ?rt) = Some ?req"
    by (simp add: Send_staged helloWorld_POST u)
  note A = parseError_envelope [where body = "''Server error''" and j = ?j and code = 500
      and status = "''500 Internal Server Error''" and env = ?env and verb = "''POST''"
      and request = "Some helloWorld" and responseType = ?rt and req = ?req and resp = ?resp]
  note B = parseError_envelope [where body = notFoundJSON and j = ?j and code = 404
      and status = "''404 Not Found''" and ms = "[(''error'', JString ''Not Found'')]",
      THEN conjunct2, THEN conjunct2, THEN conjunct1]
  obtain e where e: "Unmarshal_errorResponse ''Server error'' = Inl e"
    using A serverError_not_json by blast
  have p: "parseError ?j 500 ''500 Internal Server Error'' ''Server error''
     = ServiceError \<lparr>WebServiceException.StatusCode = 500,
                           StatusDescription = ''500 Internal Server Error'',
                           ResponseStatus = zeroResponseStatus\<lparr>ResponseStatus.Message := ''Server error''\<rparr>\<rparr>"
    using parseError_envelope [where body = "''Server error''" and e = e and j = ?j and code = 500
      and status = "''500 Internal Server Error''", THEN conjunct1] e by blast
  have 1: "err (Send ?env ?j ''POST'' (Some helloWorld) ?rt)
            = Some (parseError ?j 500 ''500 Internal Server Error'' ''Server error'')
        \<and> out (Send ?env ?j ''POST'' (Some helloWorld) ?rt) = None"
    using A s by simp
  have f: "foldName ''error'' \<noteq> ''responsestatus''"
    by (simp add: toLower_def isUpper_def)
  have 2: "parseError ?j 404 ''404 Not Found'' notFoundJSON
     = ServiceError \<lparr>WebServiceException.StatusCode = 404, StatusDescription = ''404 Not Found'',
                     ResponseStatus = zeroResponseStatus\<rparr>"
    using B notFound_json f by simp
  show ?thesis using 1 2 p by simp
qed

end
